theory Spec2Isabelle
  imports Complex_Main "HOL-Library.Product_Lexorder"
begin

section \<open>JavaScript values that reach the timetable router\<close>

text \<open>
  A JavaScript number is a finite value, \<open>NaN\<close> or an infinity. No arithmetic is done on
  the numbers of \<open>timetable.ts\<close>: they are compared, bound to SQL statements and echoed, so a
  finite number is modelled by its rational value (\<open>-0\<close> and \<open>0\<close> compare equal in
  JavaScript and in SQLite and are one value here).
\<close>

datatype jsnum = Fin rat | NaN | PosInf | NegInf

definition isNaN :: "jsnum \<Rightarrow> bool" where
  "isNaN n = (n = NaN)"

definition isFinite :: "jsnum \<Rightarrow> bool" where
  "isFinite n = (case n of Fin q \<Rightarrow> True | _ \<Rightarrow> False)"

text \<open>
  Every exception of the router is a value. \<open>InvalidDay\<close> is
  \<open>HTTPException(400, 'bad day: ...')\<close>, \<open>BadDayNum\<close> is
  \<open>HTTPException(500, 'bad day num: ...')\<close>, \<open>PrivateTimetable\<close> is
  \<open>HTTPException(403, 'Timetable is private')\<close>, \<open>CopyNotAllowed\<close> is
  \<open>HTTPException(403, 'Copy not allowed')\<close>, \<open>SyncFailed\<close> is
  \<open>HTTPException(500, 'Sync failed')\<close>, \<open>InvalidTermSpec\<close> is
  \<open>HTTPException(400, 'year/semester required')\<close>. \<open>TypeError\<close> and \<open>SyntaxError\<close> are
  the JavaScript exceptions of a method call on \<open>undefined\<close> and of \<open>JSON.parse\<close>;
  \<open>D1Error\<close> is a statement that the database refuses.
\<close>

datatype error =
    InvalidDay | BadDayNum | PrivateTimetable | CopyNotAllowed | SyncFailed
  | InvalidTermSpec | TypeError | SyntaxError | D1Error

definition http_status :: "error \<Rightarrow> nat" where
  "http_status e = (case e of
       InvalidDay \<Rightarrow> 400 | InvalidTermSpec \<Rightarrow> 400
     | PrivateTimetable \<Rightarrow> 403 | CopyNotAllowed \<Rightarrow> 403
     | BadDayNum \<Rightarrow> 500 | SyncFailed \<Rightarrow> 500
     | TypeError \<Rightarrow> 500 | SyntaxError \<Rightarrow> 500 | D1Error \<Rightarrow> 500)"

section \<open>Day conversion: \<open>dayKeyToNum\<close> and \<open>dayNumToKey\<close>\<close>

text \<open>
  The argument of \<open>dayKeyToNum\<close> is declared \<open>string | number\<close>; the handlers pass
  \<open>e.day ?? e.dayNum\<close>, which is \<open>undefined\<close> or \<open>null\<close> when an entry has neither field
  (\<open>DNullish\<close>). Strings are byte strings in UTF-8.
\<close>

datatype dayval = DNum jsnum | DStr string | DNullish

text \<open>
  The result is declared \<open>number\<close>, but \<open>map[key]\<close> on the object literal also finds what
  the literal inherits from \<open>Object.prototype\<close>. The key has been lower-cased, so of the
  inherited names only \<open>constructor\<close> and \<open>__proto__\<close> can be hit; the value is then an
  object, not a number (\<open>DayInherited\<close>).
\<close>

datatype daynum = DayNum jsnum | DayInherited

definition lower_table :: "(char \<times> char) list" where
  "lower_table = zip ''ABCDEFGHIJKLMNOPQRSTUVWXYZ'' ''abcdefghijklmnopqrstuvwxyz''"

definition lower_char :: "char \<Rightarrow> char" where
  "lower_char c = (case map_of lower_table c of Some l \<Rightarrow> l | None \<Rightarrow> c)"

text \<open>
  \<open>String.prototype.toLowerCase\<close> on the ASCII letters. The case mapping of a character
  outside ASCII never yields one of \<open>m t w r f\<close>, a digit, a sign or white space, so it has
  no effect on what \<open>dayKeyToNum\<close> returns and is left as the identity.
\<close>

definition toLowerCase :: "string \<Rightarrow> string" where
  "toLowerCase s = map lower_char s"

definition day_map :: "(string \<times> rat) list" where
  "day_map = [(''m'', 1), (''t'', 2), (''w'', 3), (''r'', 4), (''f'', 5)]"

definition map_get :: "string \<Rightarrow> daynum option" where
  "map_get key = (case map_of day_map key of
       Some n \<Rightarrow> Some (DayNum (Fin n))
     | None \<Rightarrow> if key = ''constructor'' \<or> key = ''__proto__'' then Some DayInherited else None)"

text \<open>
  \<open>parseInt(key, 10)\<close>: leading white space and line terminators are skipped (the ECMAScript
  set, here as UTF-8 byte sequences), then an optional sign, then the longest run of decimal
  digits; no digit at all gives \<open>NaN\<close> (\<open>None\<close>).
\<close>

definition white_space :: "string list" where
  "white_space =
     [ [CHR 0x09], [CHR 0x0A], [CHR 0x0B], [CHR 0x0C], [CHR 0x0D], [CHR 0x20],
      [CHR 0xC2, CHR 0xA0], [CHR 0xE1, CHR 0x9A, CHR 0x80],
      [CHR 0xE2, CHR 0x80, CHR 0x80], [CHR 0xE2, CHR 0x80, CHR 0x81],
      [CHR 0xE2, CHR 0x80, CHR 0x82], [CHR 0xE2, CHR 0x80, CHR 0x83],
      [CHR 0xE2, CHR 0x80, CHR 0x84], [CHR 0xE2, CHR 0x80, CHR 0x85],
      [CHR 0xE2, CHR 0x80, CHR 0x86], [CHR 0xE2, CHR 0x80, CHR 0x87],
      [CHR 0xE2, CHR 0x80, CHR 0x88], [CHR 0xE2, CHR 0x80, CHR 0x89],
      [CHR 0xE2, CHR 0x80, CHR 0x8A], [CHR 0xE2, CHR 0x80, CHR 0xA8],
      [CHR 0xE2, CHR 0x80, CHR 0xA9], [CHR 0xE2, CHR 0x80, CHR 0xAF],
      [CHR 0xE2, CHR 0x81, CHR 0x9F], [CHR 0xE3, CHR 0x80, CHR 0x80],
      [CHR 0xEF, CHR 0xBB, CHR 0xBF] ]"

definition ws_prefix :: "string \<Rightarrow> nat" where
  "ws_prefix s = (case find (\<lambda>p. take (length p) s = p) white_space of
       Some p \<Rightarrow> length p | None \<Rightarrow> 0)"

fun trim_fuel :: "nat \<Rightarrow> string \<Rightarrow> string" where
  "trim_fuel 0 s = s"
| "trim_fuel (Suc k) s = (if ws_prefix s = 0 then s else trim_fuel k (drop (ws_prefix s) s))"

definition trimStart :: "string \<Rightarrow> string" where
  "trimStart s = trim_fuel (length s) s"

definition digit_table :: "(char \<times> nat) list" where
  "digit_table = zip ''0123456789'' [0, 1, 2, 3, 4, 5, 6, 7, 8, 9]"

definition is_digit :: "char \<Rightarrow> bool" where
  "is_digit c = (map_of digit_table c \<noteq> None)"

fun digits_value :: "nat \<Rightarrow> string \<Rightarrow> nat" where
  "digits_value acc [] = acc"
| "digits_value acc (c # cs) =
     (case map_of digit_table c of Some d \<Rightarrow> digits_value (10 * acc + d) cs | None \<Rightarrow> acc)"

definition parseInt :: "string \<Rightarrow> int option" where
  "parseInt s =
     (let t = trimStart s;
          neg = (case t of c # _ \<Rightarrow> c = CHR ''-'' | [] \<Rightarrow> False);
          u = (case t of c # r \<Rightarrow> if c = CHR ''+'' \<or> c = CHR ''-'' then r else t | [] \<Rightarrow> t)
      in if takeWhile is_digit u = [] then None
         else Some ((if neg then - 1 else 1) * int (digits_value 0 u)))"

definition dayKeyToNum :: "dayval \<Rightarrow> error + daynum" where
  "dayKeyToNum k = (case k of
       DNum n \<Rightarrow> Inr (DayNum n)
     | DNullish \<Rightarrow> Inl TypeError
     | DStr s \<Rightarrow>
         (let key = toLowerCase s in
          case map_get key of
            Some v \<Rightarrow> Inr v
          | None \<Rightarrow>
              (case parseInt key of
                 Some num \<Rightarrow>
                   if 1 \<le> num \<and> num \<le> 5 then Inr (DayNum (Fin (of_int num)))
                   else Inl InvalidDay
               | None \<Rightarrow> Inl InvalidDay)))"

text \<open>
  \<open>dayNumToKey\<close> indexes the array \<open>['', 'm', 't', 'w', 'r', 'f']\<close>: a number in the range
  that is not an integer, and \<open>NaN\<close> (which fails neither comparison), read \<open>undefined\<close>
  (\<open>None\<close>).
\<close>

definition dayNumToKey :: "jsnum \<Rightarrow> error + string option" where
  "dayNumToKey n = (case n of
       Fin q \<Rightarrow>
         if q < 1 \<or> q > 5 then Inl BadDayNum
         else Inr (map_of [(1, ''m''), (2, ''t''), (3, ''w''), (4, ''r''), (5, ''f'')] q)
     | NaN \<Rightarrow> Inr None
     | PosInf \<Rightarrow> Inl BadDayNum
     | NegInf \<Rightarrow> Inl BadDayNum)"

section \<open>The D1 tables\<close>

text \<open>
  A table is the list of its rows in insertion order. The columns and constraints are those
  of \<open>ensureTimetableSchema\<close>: every key column is \<open>NOT NULL\<close>, and the primary keys are
  \<open>(user_id, year, semester, sub_term, day, period)\<close> for \<open>timetable_entries\<close>,
  \<open>user_id\<close> for \<open>timetable_settings\<close> and \<open>(user_id, year, semester, sub_term)\<close> for
  \<open>timetable_published_terms\<close>. The active rows of \<open>follows\<close> are a set of
  (follower, followee) pairs.
\<close>

type_synonym uid = string

record entry_row =
  e_user_id :: uid
  e_year :: rat
  e_semester :: rat
  e_sub_term :: rat
  e_day :: rat
  e_period :: rat
  e_course_code :: "string option"
  e_course_name :: "string option"
  e_instructor :: "string option"
  e_updated_at :: int

record settings_row =
  s_is_public :: int
  s_allow_copy :: int
  s_allow_followers :: int
  s_custom_colors :: "string option"
  s_updated_at :: int

record published_row =
  p_user_id :: uid
  p_year :: rat
  p_semester :: rat
  p_sub_term :: rat
  p_is_latest :: int
  p_published_at :: int

record db =
  timetable_entries :: "entry_row list"
  timetable_settings :: "uid \<Rightarrow> settings_row option"
  timetable_published_terms :: "published_row list"
  follows :: "(uid \<times> uid) set"
  allow_followers_col :: bool

text \<open>
  Binding a number: D1 sends the parameters as JSON, where \<open>NaN\<close> and the infinities are
  \<open>null\<close>, so only a finite number reaches SQLite as a number; \<open>None\<close> is SQL \<open>NULL\<close>.
  A comparison with \<open>NULL\<close> is \<open>NULL\<close> (\<open>None\<close>), and \<open>WHERE\<close> keeps a row only when its
  condition is true.
\<close>

definition sql_num :: "jsnum \<Rightarrow> rat option" where
  "sql_num n = (case n of Fin q \<Rightarrow> Some q | _ \<Rightarrow> None)"

definition sql_eq :: "rat \<Rightarrow> rat option \<Rightarrow> bool option" where
  "sql_eq col v = map_option (\<lambda>x. col = x) v"

definition sql_and :: "bool option \<Rightarrow> bool option \<Rightarrow> bool option" where
  "sql_and a b =
     (if a = Some False \<or> b = Some False then Some False
      else if a = None \<or> b = None then None else Some True)"

definition sql_not :: "bool option \<Rightarrow> bool option" where
  "sql_not a = map_option Not a"

definition sql_true :: "bool option \<Rightarrow> bool" where
  "sql_true a = (a = Some True)"

text \<open>\<open>WHERE user_id = ? AND year = ? AND semester = ? AND sub_term = ?\<close> on an entry row.\<close>

definition entry_in_term :: "uid \<Rightarrow> jsnum \<Rightarrow> jsnum \<Rightarrow> jsnum \<Rightarrow> entry_row \<Rightarrow> bool" where
  "entry_in_term u y s st r =
     sql_true (sql_and (Some (e_user_id r = u))
       (sql_and (sql_eq (e_year r) (sql_num y))
         (sql_and (sql_eq (e_semester r) (sql_num s)) (sql_eq (e_sub_term r) (sql_num st)))))"

text \<open>
  A prepared \<open>INSERT INTO timetable_entries (...) VALUES (?, ..., strftime('%s','now'))\<close> with
  its bound parameters.
\<close>

record entry_insert =
  i_user_id :: uid
  i_year :: jsnum
  i_semester :: jsnum
  i_sub_term :: jsnum
  i_day :: jsnum
  i_period :: jsnum
  i_course_code :: "string option"
  i_course_name :: "string option"
  i_instructor :: "string option"

definition entry_key :: "entry_row \<Rightarrow> uid \<times> rat \<times> rat \<times> rat \<times> rat \<times> rat" where
  "entry_key r = (e_user_id r, e_year r, e_semester r, e_sub_term r, e_day r, e_period r)"

text \<open>The row an insert would write; \<open>None\<close> when a \<open>NOT NULL\<close> column would get \<open>NULL\<close>.\<close>

definition insert_row :: "int \<Rightarrow> entry_insert \<Rightarrow> entry_row option" where
  "insert_row now i =
     (case sql_num (i_year i) of None \<Rightarrow> None | Some y \<Rightarrow>
     (case sql_num (i_semester i) of None \<Rightarrow> None | Some s \<Rightarrow>
     (case sql_num (i_sub_term i) of None \<Rightarrow> None | Some st \<Rightarrow>
     (case sql_num (i_day i) of None \<Rightarrow> None | Some d \<Rightarrow>
     (case sql_num (i_period i) of None \<Rightarrow> None | Some p \<Rightarrow>
        Some \<lparr>e_user_id = i_user_id i, e_year = y, e_semester = s, e_sub_term = st,
              e_day = d, e_period = p, e_course_code = i_course_code i,
              e_course_name = i_course_name i, e_instructor = i_instructor i,
              e_updated_at = now\<rparr>)))))"

definition run_insert :: "int \<Rightarrow> entry_insert \<Rightarrow> entry_row list \<Rightarrow> error + entry_row list" where
  "run_insert now i rows =
     (case insert_row now i of
        None \<Rightarrow> Inl D1Error
      | Some r \<Rightarrow> if entry_key r \<in> entry_key ` set rows then Inl D1Error else Inr (rows @ [r]))"

text \<open>
  \<open>tdb.batch(stmts)\<close> runs the statements in order inside one transaction: the first
  statement that fails aborts the batch and the table stays as it was before the batch.
\<close>

fun batch :: "int \<Rightarrow> entry_insert list \<Rightarrow> entry_row list \<Rightarrow> error + entry_row list" where
  "batch now [] rows = Inr rows"
| "batch now (i # is) rows =
     (case run_insert now i rows of Inl e \<Rightarrow> Inl e | Inr rows' \<Rightarrow> batch now is rows')"

text \<open>\<open>Array.prototype.map\<close> with a callback that may throw: the first throw ends the map.\<close>

fun map_throw :: "('a \<Rightarrow> error + 'b) \<Rightarrow> 'a list \<Rightarrow> error + 'b list" where
  "map_throw f [] = Inr []"
| "map_throw f (x # xs) =
     (case f x of
        Inl e \<Rightarrow> Inl e
      | Inr y \<Rightarrow> (case map_throw f xs of Inl e \<Rightarrow> Inl e | Inr ys \<Rightarrow> Inr (y # ys)))"

section \<open>The publication index\<close>

definition published_key :: "published_row \<Rightarrow> uid \<times> rat \<times> rat \<times> rat" where
  "published_key r = (p_user_id r, p_year r, p_semester r, p_sub_term r)"

text \<open>
  The row of \<open>VALUES (?, ?, ?, ?, latest, strftime('%s','now'))\<close>; \<open>None\<close> when a \<open>NOT NULL\<close>
  column would get \<open>NULL\<close>.
\<close>

definition published_values ::
  "int \<Rightarrow> uid \<Rightarrow> jsnum \<Rightarrow> jsnum \<Rightarrow> jsnum \<Rightarrow> int \<Rightarrow> published_row option" where
  "published_values now u y s st latest =
     (case sql_num y of None \<Rightarrow> None | Some y' \<Rightarrow>
     (case sql_num s of None \<Rightarrow> None | Some s' \<Rightarrow>
     (case sql_num st of None \<Rightarrow> None | Some st' \<Rightarrow>
        Some \<lparr>p_user_id = u, p_year = y', p_semester = s', p_sub_term = st',
              p_is_latest = latest, p_published_at = now\<rparr>)))"

text \<open>
  \<open>INSERT ... ON CONFLICT(user_id, year, semester, sub_term) DO UPDATE SET ...\<close>: the row
  with the key of the new row is updated, and the new row is inserted when there is none.
\<close>

definition on_conflict ::
  "published_row \<Rightarrow> (published_row \<Rightarrow> published_row) \<Rightarrow> published_row list \<Rightarrow> published_row list" where
  "on_conflict excluded upd rows =
     (if published_key excluded \<in> published_key ` set rows
      then map (\<lambda>r. if published_key r = published_key excluded then upd r else r) rows
      else rows @ [excluded])"

text \<open>
  The upsert of \<open>PUT /timetables/publish\<close>, with
  \<open>DO UPDATE SET published_at = excluded.published_at,
  is_latest = CASE WHEN ?5 = 1 THEN 1 ELSE timetable_published_terms.is_latest END\<close>.
\<close>

definition publish_upsert ::
  "int \<Rightarrow> uid \<Rightarrow> jsnum \<Rightarrow> jsnum \<Rightarrow> jsnum \<Rightarrow> int \<Rightarrow> published_row list \<Rightarrow> error + published_row list" where
  "publish_upsert now u y s st latest rows =
     (case published_values now u y s st latest of
        None \<Rightarrow> Inl D1Error
      | Some excluded \<Rightarrow>
          Inr (on_conflict excluded
                 (\<lambda>r. r\<lparr>p_published_at := p_published_at excluded,
                        p_is_latest := (if latest = 1 then 1 else p_is_latest r)\<rparr>) rows))"

text \<open>
  The upsert of the \<open>publishLatest\<close> step of \<open>PUT /timetables/sync\<close>, with the value 1 for
  \<open>is_latest\<close> and \<open>DO UPDATE SET is_latest = 1, published_at = excluded.published_at\<close>.
\<close>

definition sync_upsert ::
  "int \<Rightarrow> uid \<Rightarrow> jsnum \<Rightarrow> jsnum \<Rightarrow> jsnum \<Rightarrow> published_row list \<Rightarrow> error + published_row list" where
  "sync_upsert now u y s st rows =
     (case published_values now u y s st 1 of
        None \<Rightarrow> Inl D1Error
      | Some excluded \<Rightarrow>
          Inr (on_conflict excluded
                 (\<lambda>r. r\<lparr>p_is_latest := 1, p_published_at := p_published_at excluded\<rparr>) rows))"

text \<open>
  \<open>UPDATE timetable_published_terms SET is_latest = 0
  WHERE user_id = ? AND NOT (year = ? AND semester = ? AND sub_term = ?)\<close>, the same statement
  in both handlers.
\<close>

definition clear_others :: "uid \<Rightarrow> jsnum \<Rightarrow> jsnum \<Rightarrow> jsnum \<Rightarrow> published_row list \<Rightarrow> published_row list" where
  "clear_others u y s st rows =
     map (\<lambda>r. if sql_true (sql_and (Some (p_user_id r = u))
                  (sql_not (sql_and (sql_eq (p_year r) (sql_num y))
                     (sql_and (sql_eq (p_semester r) (sql_num s))
                        (sql_eq (p_sub_term r) (sql_num st))))))
              then r\<lparr>p_is_latest := 0\<rparr> else r) rows"

section \<open>\<open>PUT /timetables/sync\<close>\<close>

text \<open>
  The request body after the handler's own conversions: \<open>b_year\<close> is \<open>Number(body.year)\<close>,
  \<open>b_subTerm\<close> is \<open>Number(body.subTerm ?? body.sub_term ?? 0)\<close>; in an entry, \<open>se_year\<close> is
  \<open>None\<close> when \<open>e.year\<close> is \<open>null\<close> or \<open>undefined\<close> and \<open>Some (Number(e.year))\<close> otherwise
  (likewise \<open>se_semester\<close>, and \<open>se_subTerm\<close> for \<open>e.subTerm ?? e.sub_term\<close>), \<open>se_day\<close> is
  \<open>e.day ?? e.dayNum\<close>, \<open>se_period\<close> is \<open>Number(e.period)\<close>, \<open>se_courseCode\<close> is
  \<open>e.courseCode ?? e.course_code ?? null\<close> (likewise the course name and the instructor, which
  are taken to be strings or \<open>null\<close>). \<open>b_entries\<close> is \<open>body.entries ?? []\<close>, an array: any
  other value is answered with 400 before the database is touched. \<open>b_publishLatest\<close> is the
  truthiness of \<open>body.publishLatest\<close>.
\<close>

record sync_entry =
  se_year :: "jsnum option"
  se_semester :: "jsnum option"
  se_subTerm :: "jsnum option"
  se_day :: dayval
  se_period :: jsnum
  se_courseCode :: "string option"
  se_courseName :: "string option"
  se_instructor :: "string option"

record sync_body =
  b_year :: jsnum
  b_semester :: jsnum
  b_subTerm :: jsnum
  b_entries :: "sync_entry list"
  b_publishLatest :: bool

text \<open>
  The callback of \<open>entries.map\<close>: it throws what \<open>dayKeyToNum\<close> throws, and \<open>bind\<close> throws a
  \<open>D1_TYPE_ERROR\<close> on a day that is not a number.
\<close>

definition sync_stmt :: "uid \<Rightarrow> sync_body \<Rightarrow> sync_entry \<Rightarrow> error + entry_insert" where
  "sync_stmt u body e =
     (let entryYear = (case se_year e of Some n \<Rightarrow> n | None \<Rightarrow> b_year body);
          entrySemester = (case se_semester e of Some n \<Rightarrow> n | None \<Rightarrow> b_semester body);
          entrySubTerm = (case se_subTerm e of Some n \<Rightarrow> n | None \<Rightarrow> b_subTerm body)
      in case dayKeyToNum (se_day e) of
           Inl err \<Rightarrow> Inl err
         | Inr DayInherited \<Rightarrow> Inl D1Error
         | Inr (DayNum day) \<Rightarrow>
             Inr \<lparr>i_user_id = u, i_year = entryYear, i_semester = entrySemester,
                  i_sub_term = entrySubTerm, i_day = day, i_period = se_period e,
                  i_course_code = se_courseCode e, i_course_name = se_courseName e,
                  i_instructor = se_instructor e\<rparr>)"

text \<open>
  The \<open>publishLatest\<close> step: the upsert, then the clearing of the other rows. A failing upsert
  throws before the second statement runs.
\<close>

definition sync_publish :: "int \<Rightarrow> uid \<Rightarrow> sync_body \<Rightarrow> published_row list \<Rightarrow> error + published_row list" where
  "sync_publish now u body rows =
     (case sync_upsert now u (b_year body) (b_semester body) (b_subTerm body) rows of
        Inl e \<Rightarrow> Inl e
      | Inr rows' \<Rightarrow> Inr (clear_others u (b_year body) (b_semester body) (b_subTerm body) rows'))"

text \<open>
  The JSON object of the success response. \<open>JSynced n y s t\<close> stands for the message
  \<open>`Synced ${n} entries for ${y}... ${s} ... ${t}`\<close>, kept as the four values it is built from.
\<close>

datatype json = JBool bool | JCount nat | JSynced nat jsnum jsnum jsnum

definition sync_response :: "sync_body \<Rightarrow> (string \<times> json) list" where
  "sync_response body =
     [(''success'', JBool True), (''deleted'', JBool True),
      (''inserted'', JCount (length (b_entries body))),
      (''message'', JSynced (length (b_entries body)) (b_year body) (b_semester body)
                      (b_subTerm body))]"

text \<open>
  The insert phase on the table that the \<open>DELETE\<close> left: nothing when \<open>entries\<close> is empty,
  else one statement per entry and one batch.
\<close>

definition sync_insert :: "int \<Rightarrow> uid \<Rightarrow> sync_body \<Rightarrow> entry_row list \<Rightarrow> error + entry_row list" where
  "sync_insert now u body rows =
     (if b_entries body \<noteq> []
      then (case map_throw (sync_stmt u body) (b_entries body) of
              Inl e \<Rightarrow> Inl e
            | Inr stmts \<Rightarrow> batch now stmts rows)
      else Inr rows)"

text \<open>
  The handler, for the authenticated user \<open>u\<close> at time \<open>now\<close>. It returns the response or the
  exception, and the database as the request leaves it. The \<open>DELETE\<close> runs first, as a
  statement of its own; every exception of the insert phase is caught and replaced by
  \<open>HTTPException(500, 'Sync failed')\<close>; an exception of the \<open>publishLatest\<close> step is caught,
  logged with \<open>console.warn\<close> and dropped.
\<close>

definition sync :: "int \<Rightarrow> uid \<Rightarrow> sync_body \<Rightarrow> db \<Rightarrow> (error + (string \<times> json) list) \<times> db" where
  "sync now u body d =
     (let year = b_year body; semester = b_semester body; subTerm = b_subTerm body;
          d1 = d\<lparr>timetable_entries :=
                   filter (\<lambda>r. \<not> entry_in_term u year semester subTerm r) (timetable_entries d)\<rparr>
      in case sync_insert now u body (timetable_entries d1) of
           Inl e \<Rightarrow> (Inl SyncFailed, d1)
         | Inr rows \<Rightarrow>
             (let d2 = d1\<lparr>timetable_entries := rows\<rparr>;
                  d3 = (if b_publishLatest body
                        then (case sync_publish now u body (timetable_published_terms d2) of
                                Inl e \<Rightarrow> d2
                              | Inr p \<Rightarrow> d2\<lparr>timetable_published_terms := p\<rparr>)
                        else d2)
              in (Inr (sync_response body), d3)))"

section \<open>\<open>PUT /timetables/publish\<close>\<close>

record publish_body =
  pb_year :: jsnum
  pb_semester :: jsnum
  pb_subTerm :: jsnum
  pb_latest :: bool

definition publish :: "int \<Rightarrow> uid \<Rightarrow> publish_body \<Rightarrow> db \<Rightarrow> (error + unit) \<times> db" where
  "publish now u body d =
     (let year = pb_year body; semester = pb_semester body; subTerm = pb_subTerm body;
          latest = pb_latest body
      in if \<not> isFinite year \<or> \<not> isFinite semester then (Inl InvalidTermSpec, d)
         else (case publish_upsert now u year semester subTerm (if latest then 1 else 0)
                      (timetable_published_terms d) of
                 Inl e \<Rightarrow> (Inl e, d)
               | Inr p \<Rightarrow>
                   (Inr (), d\<lparr>timetable_published_terms :=
                               (if latest then clear_others u year semester subTerm p else p)\<rparr>)))"

section \<open>\<open>POST /timetables/copy/:sourceUserId\<close>\<close>

text \<open>
  \<open>sourceUserId\<close> is the resolved id of the path parameter, \<open>u\<close> the authenticated user, and
  the term is \<open>Number(b.year)\<close>, \<open>Number(b.semester)\<close>, \<open>Number(b.subTerm ?? 0)\<close>. The response
  carries the number of copied rows.
\<close>

definition copy_stmt :: "uid \<Rightarrow> jsnum \<Rightarrow> jsnum \<Rightarrow> jsnum \<Rightarrow> entry_row \<Rightarrow> entry_insert" where
  "copy_stmt u year semester subTerm r =
     \<lparr>i_user_id = u, i_year = year, i_semester = semester, i_sub_term = subTerm,
      i_day = Fin (e_day r), i_period = Fin (e_period r), i_course_code = e_course_code r,
      i_course_name = e_course_name r, i_instructor = e_instructor r\<rparr>"

definition copy :: "int \<Rightarrow> uid \<Rightarrow> uid \<Rightarrow> jsnum \<Rightarrow> jsnum \<Rightarrow> jsnum \<Rightarrow> db \<Rightarrow> (error + nat) \<times> db" where
  "copy now u sourceUserId year semester subTerm d =
     (case timetable_settings d sourceUserId of
        None \<Rightarrow> (Inl CopyNotAllowed, d)
      | Some settings \<Rightarrow>
          if s_is_public settings \<noteq> 1 \<or> s_allow_copy settings \<noteq> 1 then (Inl CopyNotAllowed, d)
          else
            (let d1 = d\<lparr>timetable_entries :=
                         filter (\<lambda>r. \<not> entry_in_term u year semester subTerm r)
                           (timetable_entries d)\<rparr>;
                 srcRows = sort_key (\<lambda>r. (e_day r, e_period r))
                             (filter (entry_in_term sourceUserId year semester subTerm)
                                (timetable_entries d1));
                 stmts = map (copy_stmt u year semester subTerm) srcRows
             in case (if stmts \<noteq> [] then batch now stmts (timetable_entries d1)
                      else Inr (timetable_entries d1)) of
                  Inl e \<Rightarrow> (Inl e, d1)
                | Inr rows \<Rightarrow>
                    (Inr (length stmts),
                     d1\<lparr>timetable_entries := rows,
                        timetable_settings := (timetable_settings d1)(u \<mapsto>
                          (case timetable_settings d1 u of
                             None \<Rightarrow> \<lparr>s_is_public = 0, s_allow_copy = 0, s_allow_followers = 1,
                                      s_custom_colors = s_custom_colors settings,
                                      s_updated_at = now\<rparr>
                           | Some old \<Rightarrow> old\<lparr>s_custom_colors := s_custom_colors settings,
                                            s_updated_at := now\<rparr>))\<rparr>)))"

section \<open>\<open>GET /timetables/:userId\<close>\<close>

text \<open>
  \<open>viewer\<close> is the uid of the request's bearer token, \<open>None\<close> when \<open>auth\<close> throws (no token
  or an invalid one); \<open>auth\<close> never yields an empty uid. \<open>ownerUid\<close> is the resolved path
  parameter. The query parameters arrive as \<open>Number(q)\<close>, and as \<open>NaN\<close> when absent. The
  optional \<open>auth\<close> call of debug mode only fills a variable that is never read.
\<close>

definition isFollower :: "db \<Rightarrow> uid \<Rightarrow> uid \<Rightarrow> bool" where
  "isFollower d viewerId ownerId =
     (if viewerId = [] \<or> ownerId = [] then False else (viewerId, ownerId) \<in> follows d)"

definition isPublic_of :: "settings_row option \<Rightarrow> bool" where
  "isPublic_of settingsRow = (case settingsRow of Some r \<Rightarrow> s_is_public r = 1 | None \<Rightarrow> False)"

definition allowCopy_of :: "settings_row option \<Rightarrow> bool" where
  "allowCopy_of settingsRow = (case settingsRow of Some r \<Rightarrow> s_allow_copy r = 1 | None \<Rightarrow> False)"

definition allowFollowers_of :: "bool \<Rightarrow> settings_row option \<Rightarrow> bool" where
  "allowFollowers_of hasAllowFollowersCol settingsRow =
     (if hasAllowFollowersCol
      then (case settingsRow of Some r \<Rightarrow> s_allow_followers r = 1 | None \<Rightarrow> False)
      else False)"

text \<open>
  \<open>settingsRow?.custom_colors ? JSON.parse(settingsRow.custom_colors) : null\<close>; \<open>JSON.parse\<close> is
  a parameter, \<open>None\<close> where it throws.
\<close>

definition customColors_of :: "(string \<Rightarrow> 'j option) \<Rightarrow> settings_row option \<Rightarrow> error + 'j option" where
  "customColors_of JSON_parse settingsRow =
     (case settingsRow of
        None \<Rightarrow> Inr None
      | Some r \<Rightarrow>
          (case s_custom_colors r of
             None \<Rightarrow> Inr None
           | Some text \<Rightarrow>
               if text = [] then Inr None
               else (case JSON_parse text of None \<Rightarrow> Inl SyntaxError | Some v \<Rightarrow> Inr (Some v))))"

text \<open>The visibility gate (\<open>if (!isPublic) { ... }\<close>).\<close>

definition visibility_gate :: "db \<Rightarrow> bool \<Rightarrow> bool \<Rightarrow> uid option \<Rightarrow> uid \<Rightarrow> error + unit" where
  "visibility_gate d isPublic allowFollowers viewer ownerUid =
     (if \<not> isPublic then
        (case viewer of
           None \<Rightarrow> Inl PrivateTimetable
         | Some u \<Rightarrow>
             if u \<noteq> ownerUid then
               (if \<not> allowFollowers then Inl PrivateTimetable
                else if \<not> isFollower d u ownerUid then Inl PrivateTimetable
                else Inr ())
             else Inr ())
      else Inr ())"

text \<open>
  \<open>ORDER BY published_at DESC LIMIT 1\<close>. Where rows tie on the sort key SQL leaves their
  order open; the model keeps them in the order of the table, here and in the other sorted
  queries.
\<close>

definition first_published :: "published_row list \<Rightarrow> published_row option" where
  "first_published rows =
     (case sort_key (\<lambda>r. - p_published_at r) rows of [] \<Rightarrow> None | r # _ \<Rightarrow> Some r)"

text \<open>The two queries of the term resolution: the flagged row, else the most recent one.\<close>

definition latest :: "db \<Rightarrow> uid \<Rightarrow> published_row option" where
  "latest d ownerUid =
     (case first_published
             (filter (\<lambda>r. p_user_id r = ownerUid \<and> p_is_latest r = 1)
                (timetable_published_terms d)) of
        Some row \<Rightarrow> Some row
      | None \<Rightarrow>
          first_published (filter (\<lambda>r. p_user_id r = ownerUid) (timetable_published_terms d)))"

record view_entry =
  v_sub_term :: rat
  v_day :: "string option"
  v_dayNum :: rat
  v_period :: rat
  v_course_code :: string
  v_course_name :: string
  v_instructor :: string

text \<open>
  The callback of \<open>rows.map\<close>; the aliases \<open>subTerm\<close>, \<open>courseCode\<close> and \<open>courseName\<close> repeat
  the values of \<open>sub_term\<close>, \<open>course_code\<close> and \<open>course_name\<close>.
\<close>

definition view_entry_of :: "entry_row \<Rightarrow> error + view_entry" where
  "view_entry_of r =
     (case dayNumToKey (Fin (e_day r)) of
        Inl e \<Rightarrow> Inl e
      | Inr k \<Rightarrow>
          Inr \<lparr>v_sub_term = e_sub_term r, v_day = k, v_dayNum = e_day r, v_period = e_period r,
               v_course_code = (case e_course_code r of Some c \<Rightarrow> c | None \<Rightarrow> []),
               v_course_name = (case e_course_name r of Some c \<Rightarrow> c | None \<Rightarrow> []),
               v_instructor = (case e_instructor r of Some c \<Rightarrow> c | None \<Rightarrow> [])\<rparr>)"

record term_row =
  t_year :: rat
  t_semester :: rat
  t_subTerm :: rat
  t_isLatest :: int
  t_publishedAt :: int

text \<open>The list of published terms, \<open>ORDER BY is_latest DESC, published_at DESC\<close>.\<close>

definition term_rows :: "db \<Rightarrow> uid \<Rightarrow> term_row list" where
  "term_rows d ownerUid =
     map (\<lambda>r. \<lparr>t_year = p_year r, t_semester = p_semester r, t_subTerm = p_sub_term r,
                t_isLatest = (if p_is_latest r = 1 then 1 else 0),
                t_publishedAt = p_published_at r\<rparr>)
       (sort_key (\<lambda>r. (- p_is_latest r, - p_published_at r))
          (filter (\<lambda>r. p_user_id r = ownerUid) (timetable_published_terms d)))"

record 'j view_settings =
  vs_is_public :: int
  vs_allow_copy :: int
  vs_allow_followers :: int
  vs_custom_colors :: "'j option"

record 'j get_response =
  r_entries :: "view_entry list"
  r_settings :: "'j view_settings"
  r_available_terms :: "term_row list"
  r_selected :: "(jsnum \<times> jsnum \<times> jsnum) option"

definition noTermSpecified :: "jsnum \<Rightarrow> jsnum \<Rightarrow> jsnum \<Rightarrow> bool" where
  "noTermSpecified year semester subTerm = (isNaN year \<or> isNaN semester \<or> isNaN subTerm)"

text \<open>The term the handler goes on with; \<open>None\<close> is the early return of the empty result.\<close>

definition resolve_term :: "db \<Rightarrow> uid \<Rightarrow> jsnum \<Rightarrow> jsnum \<Rightarrow> jsnum \<Rightarrow> (jsnum \<times> jsnum \<times> jsnum) option" where
  "resolve_term d ownerUid year semester subTerm =
     (if noTermSpecified year semester subTerm then
        (case latest d ownerUid of
           Some row \<Rightarrow> Some (Fin (p_year row), Fin (p_semester row), Fin (p_sub_term row))
         | None \<Rightarrow> None)
      else Some (year, semester, subTerm))"

definition get_timetable ::
  "(string \<Rightarrow> 'j option) \<Rightarrow> uid option \<Rightarrow> uid \<Rightarrow> jsnum \<Rightarrow> jsnum \<Rightarrow> jsnum \<Rightarrow> db \<Rightarrow> error + 'j get_response" where
  "get_timetable JSON_parse viewer ownerUid qYear qSem qSub d =
     (let settingsRow = timetable_settings d ownerUid;
          isPublic = isPublic_of settingsRow;
          allowCopy = allowCopy_of settingsRow;
          allowFollowers = allowFollowers_of (allow_followers_col d) settingsRow
      in case customColors_of JSON_parse settingsRow of
           Inl e \<Rightarrow> Inl e
         | Inr customColors \<Rightarrow>
        (case visibility_gate d isPublic allowFollowers viewer ownerUid of
           Inl e \<Rightarrow> Inl e
         | Inr ok \<Rightarrow>
        (let settings = \<lparr>vs_is_public = (if isPublic then 1 else 0),
                         vs_allow_copy = (if allowCopy then 1 else 0),
                         vs_allow_followers = (if allowFollowers then 1 else 0),
                         vs_custom_colors = customColors\<rparr>
         in case resolve_term d ownerUid qYear qSem qSub of
              None \<Rightarrow>
                Inr \<lparr>r_entries = [], r_settings = settings, r_available_terms = [],
                     r_selected = None\<rparr>
            | Some (year, semester, subTerm) \<Rightarrow>
                (case map_throw view_entry_of
                        (sort_key (\<lambda>r. (e_day r, e_period r))
                           (filter (entry_in_term ownerUid year semester subTerm)
                              (timetable_entries d))) of
                   Inl e \<Rightarrow> Inl e
                 | Inr entries \<Rightarrow>
                     Inr \<lparr>r_entries = entries, r_settings = settings,
                          r_available_terms = term_rows d ownerUid,
                          r_selected = Some (year, semester, subTerm)\<rparr>))))"

section \<open>Sequences of publishing requests\<close>

datatype request = Publish int uid publish_body | Sync int uid sync_body

fun serve :: "db \<Rightarrow> request \<Rightarrow> db" where
  "serve d (Publish now u body) = snd (publish now u body d)"
| "serve d (Sync now u body) = snd (sync now u body d)"

definition serve_all :: "db \<Rightarrow> request list \<Rightarrow> db" where
  "serve_all d reqs = foldl serve d reqs"

definition is_latest_of :: "uid \<Rightarrow> published_row \<Rightarrow> bool" where
  "is_latest_of owner = (\<lambda>r. p_user_id r = owner \<and> p_is_latest r = 1)"

definition latest_rows :: "uid \<Rightarrow> db \<Rightarrow> published_row list" where
  "latest_rows owner d = filter (is_latest_of owner) (timetable_published_terms d)"

text \<open>
  The invariant of the publication index for one owner: the table satisfies its primary key,
  and at most one row of the owner is flagged.
\<close>

definition pub_inv :: "uid \<Rightarrow> published_row list \<Rightarrow> bool" where
  "pub_inv owner rows =
     (distinct (map published_key rows) \<and> length (filter (is_latest_of owner) rows) \<le> 1)"

section \<open>Cells: what a synced entry and a fetched entry have in common\<close>

text \<open>
  A cell is the day number, the period, the course code, the course name and the instructor,
  with the empty string for an absent text. \<open>entry_cell\<close> reads it off a request entry (when
  its day decodes to a finite number and its period is one), \<open>row_cell\<close> off a stored row and
  \<open>view_cell\<close> off an entry of the read response. Cells are ordered by day, then period.
\<close>

type_synonym timetable_cell = "rat \<times> rat \<times> string \<times> string \<times> string"

definition text_of :: "string option \<Rightarrow> string" where
  "text_of t = (case t of Some c \<Rightarrow> c | None \<Rightarrow> [])"

definition entry_cell :: "sync_entry \<Rightarrow> timetable_cell option" where
  "entry_cell e =
     (case dayKeyToNum (se_day e) of
        Inr (DayNum (Fin d)) \<Rightarrow>
          (case se_period e of
             Fin p \<Rightarrow> Some (d, p, text_of (se_courseCode e), text_of (se_courseName e),
                            text_of (se_instructor e))
           | _ \<Rightarrow> None)
      | _ \<Rightarrow> None)"

definition row_cell :: "entry_row \<Rightarrow> timetable_cell" where
  "row_cell r = (e_day r, e_period r, text_of (e_course_code r), text_of (e_course_name r),
                 text_of (e_instructor r))"

definition view_cell :: "view_entry \<Rightarrow> timetable_cell" where
  "view_cell v = (v_dayNum v, v_period v, v_course_code v, v_course_name v, v_instructor v)"

definition cell_key :: "timetable_cell \<Rightarrow> rat \<times> rat" where
  "cell_key c = (fst c, fst (snd c))"

text \<open>An entry that names no term, or the term (y, s, st) itself.\<close>

definition names_term :: "rat \<Rightarrow> rat \<Rightarrow> rat \<Rightarrow> sync_entry \<Rightarrow> bool" where
  "names_term y s st e =
     (se_year e \<in> {None, Some (Fin y)} \<and> se_semester e \<in> {None, Some (Fin s)}
      \<and> se_subTerm e \<in> {None, Some (Fin st)})"

text \<open>An entry whose day decodes to a number of 1..5.\<close>

definition day_in_range :: "sync_entry \<Rightarrow> bool" where
  "day_in_range e = (\<exists>q. dayKeyToNum (se_day e) = Inr (DayNum (Fin q)) \<and> 1 \<le> q \<and> q \<le> 5)"

section \<open>Example data\<close>

text \<open>
  User \<open>u\<close> has one stored cell in the term (2024, 1, 0); nobody has a settings row or a
  published term.
\<close>

definition stored_row :: entry_row where
  "stored_row = \<lparr>e_user_id = ''u'', e_year = 2024, e_semester = 1, e_sub_term = 0, e_day = 2,
      e_period = 3, e_course_code = Some ''MA200'', e_course_name = None,
      e_instructor = None, e_updated_at = 1\<rparr>"

definition stored_db :: db where
  "stored_db = \<lparr>timetable_entries = [stored_row], timetable_settings = Map.empty,
      timetable_published_terms = [], follows = {}, allow_followers_col = True\<rparr>"

text \<open>An entry that names no term of its own, and a sync request for the term (2024, 1, 0).\<close>

definition cell :: "dayval \<Rightarrow> jsnum \<Rightarrow> string option \<Rightarrow> sync_entry" where
  "cell day period code = \<lparr>se_year = None, se_semester = None, se_subTerm = None, se_day = day,
      se_period = period, se_courseCode = code, se_courseName = None, se_instructor = None\<rparr>"

definition sync_request :: "sync_entry list \<Rightarrow> bool \<Rightarrow> sync_body" where
  "sync_request es pl = \<lparr>b_year = Fin 2024, b_semester = Fin 1, b_subTerm = Fin 0,
      b_entries = es, b_publishLatest = pl\<rparr>"

text \<open>\<open>entries: [{day: "m", period: 1.5, courseCode: "CS101"}]\<close>\<close>

definition half_period_request :: sync_body where
  "half_period_request = sync_request [cell (DStr ''m'') (Fin (3 / 2)) (Some ''CS101'')] False"

text \<open>\<open>entries: [{day: "m", period: 1, courseCode: "CS101"}, {day: "x", period: 1}]\<close>\<close>

definition bad_letter_request :: sync_body where
  "bad_letter_request =
     sync_request [cell (DStr ''m'') (Fin 1) (Some ''CS101''), cell (DStr ''x'') (Fin 1) None] False"

text \<open>\<open>entries: [{day: "m", period: 1, courseCode: "CS101"}, {day: 6, period: 1}]\<close>\<close>

definition day_six_request :: sync_body where
  "day_six_request =
     sync_request [cell (DStr ''m'') (Fin 1) (Some ''CS101''), cell (DNum (Fin 6)) (Fin 1) None] False"

text \<open>\<open>entries: [{day: "t", period: 2, courseCode: "CS102"}, {day: "m", period: 1, courseCode: "CS101"}]\<close>\<close>

definition two_cells_request :: sync_body where
  "two_cells_request =
     sync_request [cell (DStr ''t'') (Fin 2) (Some ''CS102''), cell (DStr ''m'') (Fin 1) (Some ''CS101'')]
       False"

text \<open>
  A sync of the term (2024, 1, 0) whose only entry names the year 2023:
  \<open>entries: [{year: 2023, day: "m", period: 1, courseCode: "CS101"}]\<close>.
\<close>

definition other_year_request :: sync_body where
  "other_year_request =
     sync_request [(cell (DStr ''m'') (Fin 1) (Some ''CS101''))\<lparr>se_year := Some (Fin 2023)\<rparr>] False"

text \<open>
  A sync with \<open>publishLatest\<close> whose body has no usable sub-term (\<open>Number\<close> gives \<open>NaN\<close>)
  while its entry names the sub-term 0.
\<close>

definition own_subterm_request :: sync_body where
  "own_subterm_request =
     \<lparr>b_year = Fin 2024, b_semester = Fin 1, b_subTerm = NaN,
      b_entries = [(cell (DStr ''m'') (Fin 1) (Some ''CS101''))\<lparr>se_subTerm := Some (Fin 0)\<rparr>],
      b_publishLatest = True\<rparr>"

text \<open>
  User \<open>u\<close> has published the terms (2023, 1, 0) and (2024, 1, 0); the second was published
  earlier and is the flagged one.
\<close>

definition published_db :: db where
  "published_db = stored_db\<lparr>timetable_published_terms :=
     [\<lparr>p_user_id = ''u'', p_year = 2023, p_semester = 1, p_sub_term = 0, p_is_latest = 0,
       p_published_at = 5\<rparr>,
      \<lparr>p_user_id = ''u'', p_year = 2024, p_semester = 1, p_sub_term = 0, p_is_latest = 1,
       p_published_at = 3\<rparr>]\<rparr>"

definition publishing_requests :: "request list" where
  "publishing_requests =
     [Publish 20 ''u'' \<lparr>pb_year = Fin 2025, pb_semester = Fin 1, pb_subTerm = Fin 0, pb_latest = True\<rparr>,
      Sync 30 ''u'' (sync_request [] True),
      Publish 40 ''u'' \<lparr>pb_year = Fin 2023, pb_semester = Fin 1, pb_subTerm = Fin 0, pb_latest = False\<rparr>,
      Publish 50 ''v'' \<lparr>pb_year = Fin 2024, pb_semester = Fin 2, pb_subTerm = Fin 0, pb_latest = True\<rparr>]"



text \<open>User \<open>u\<close> is public and does not allow copies.\<close>

definition no_copy_db :: db where
  "no_copy_db = stored_db\<lparr>timetable_settings :=
     [''u'' \<mapsto> \<lparr>s_is_public = 1, s_allow_copy = 0, s_allow_followers = 1,
                 s_custom_colors = None, s_updated_at = 1\<rparr>]\<rparr>"

section \<open>Properties of the day conversion\<close>

lemmas day_defs =
  dayKeyToNum_def toLowerCase_def lower_char_def lower_table_def map_get_def day_map_def
  dayNumToKey_def

text \<open>
  C7. Converting a day number of 1..5 to its letter and back gives the number again, and
  converting one of the letters m, t, w, r, f, in lower or in upper case, to its number and
  back gives the lower-case letter.
\<close>

theorem day_round_trip:
  "(d \<in> {1, 2, 3, 4, 5} \<longrightarrow>
      (\<exists>k. dayNumToKey (Fin d) = Inr (Some k) \<and> dayKeyToNum (DStr k) = Inr (DayNum (Fin d))))
   \<and> ((l, u) \<in> set (zip ''mtwrf'' ''MTWRF'') \<longrightarrow>
      (\<exists>n. dayKeyToNum (DStr [l]) = Inr (DayNum n) \<and> dayKeyToNum (DStr [u]) = Inr (DayNum n)
           \<and> dayNumToKey n = Inr (Some [l])))"
  by (auto simp: day_defs)

text \<open>The round trip at the number 3 and at the letter r.\<close>

theorem day_round_trip_witness:
  "(3::rat) \<in> {1, 2, 3, 4, 5}
   \<and> (\<exists>k. dayNumToKey (Fin 3) = Inr (Some k) \<and> dayKeyToNum (DStr k) = Inr (DayNum (Fin 3)))
   \<and> (CHR ''r'', CHR ''R'') \<in> set (zip ''mtwrf'' ''MTWRF'')
   \<and> (\<exists>n. dayKeyToNum (DStr ''r'') = Inr (DayNum n) \<and> dayKeyToNum (DStr ''R'') = Inr (DayNum n)
           \<and> dayNumToKey n = Inr (Some ''r''))"
  using day_round_trip [of 3 "CHR ''r''" "CHR ''R''"] by simp

text \<open>What the string branch of \<open>dayKeyToNum\<close> does check.\<close>

lemma lower_char_fixed:
  "lower_char c \<in> set ''mtwrf0123456789+-''
   \<Longrightarrow> lower_char c = c \<or> (c, lower_char c) \<in> set (zip ''MTWRF'' ''mtwrf'')"
  unfolding lower_char_def lower_table_def by (auto split: if_splits)

lemma ws_prefix_single:
  "ws_prefix [c] =
     (if c \<in> set [CHR 0x09, CHR 0x0A, CHR 0x0B, CHR 0x0C, CHR 0x0D, CHR 0x20] then 1 else 0)"
  by (simp add: ws_prefix_def white_space_def)

lemma parseInt_single: "parseInt [c] = map_option int (map_of digit_table c)"
  by (auto simp: parseInt_def trimStart_def ws_prefix_single is_digit_def digit_table_def Let_def)

lemma dayKeyToNum_other_char:
  assumes "lower_char c \<notin> set ''mtwrf''" and "c \<notin> set ''12345''"
  shows "dayKeyToNum (DStr [c]) = Inl InvalidDay"
proof -
  have m: "map_get [lower_char c] = None"
    using assms(1) by (auto simp: map_get_def day_map_def)
  have "lower_char c \<notin> set ''12345''"
    using assms(2) lower_char_fixed [of c] by auto
  then have "\<not> (\<exists>n. parseInt [lower_char c] = Some n \<and> 1 \<le> n \<and> n \<le> 5)"
    by (auto simp: parseInt_single digit_table_def split: if_splits)
  with m show ?thesis
    by (auto simp: dayKeyToNum_def toLowerCase_def split: option.splits)
qed

lemma dayKeyToNum_string_range:
  assumes "dayKeyToNum (DStr s) = Inr (DayNum n)"
  shows "n \<in> Fin ` {1, 2, 3, 4, 5}"
proof (cases "map_get (toLowerCase s)")
  case None
  then obtain num where
    "parseInt (toLowerCase s) = Some num" "1 \<le> num" "num \<le> 5" "n = Fin (of_int num)"
    using assms by (auto simp: dayKeyToNum_def split: option.splits if_splits)
  moreover from this have "num \<in> {1, 2, 3, 4, 5}" by auto
  ultimately show ?thesis by auto
next
  case (Some v)
  then show ?thesis using assms
    by (auto simp: dayKeyToNum_def map_get_def day_map_def split: option.splits if_splits)
qed

text \<open>
  C3. An integer outside 1..5 is to fail with \<open>InvalidDay\<close>, and a sync with \<open>day: 6\<close> is to
  be rejected. The number branch of \<open>dayKeyToNum\<close> returns its argument unchecked: the number
  6 is returned as the day, the sync of \<open>[{day: "m", ...}, {day: 6, ...}]\<close> succeeds and
  stores both cells, and the owner's next read of that term fails in \<open>dayNumToKey\<close>. The
  string \<open>"6"\<close> is refused by \<open>dayKeyToNum\<close>.
\<close>

theorem sync_stores_day_six:
  "dayKeyToNum (DNum (Fin 6)) = Inr (DayNum (Fin 6))
   \<and> dayKeyToNum (DStr ''6'') = Inl InvalidDay
   \<and> fst (sync 10 ''u'' day_six_request stored_db) = Inr (sync_response day_six_request)
   \<and> map e_day (timetable_entries (snd (sync 10 ''u'' day_six_request stored_db))) = [1, 6]
   \<and> get_timetable Some (Some ''u'') ''u'' (Fin 2024) (Fin 1) (Fin 0)
       (snd (sync 10 ''u'' day_six_request stored_db)) = Inl BadDayNum"
  by code_simp

section \<open>Properties of the sync\<close>

lemma map_throw_Inl_iff:
  "(\<exists>e. map_throw f xs = Inl e) \<longleftrightarrow> (\<exists>x\<in>set xs. \<exists>e. f x = Inl e)"
  by (induction xs) (auto split: sum.splits)

lemma sync_stmt_undecodable:
  assumes "\<forall>n. dayKeyToNum (se_day e) \<noteq> Inr (DayNum n)"
  shows "\<exists>err. sync_stmt u body e = Inl err"
  using assms by (auto simp: sync_stmt_def Let_def split: sum.splits daynum.splits)

lemma sync_insert_undecodable:
  assumes "e \<in> set (b_entries body)" and "\<forall>n. dayKeyToNum (se_day e) \<noteq> Inr (DayNum n)"
  shows "\<exists>err. sync_insert now u body rows = Inl err"
proof -
  have "\<exists>x\<in>set (b_entries body). \<exists>err. sync_stmt u body x = Inl err"
    using assms sync_stmt_undecodable by blast
  then obtain err where "map_throw (sync_stmt u body) (b_entries body) = Inl err"
    using map_throw_Inl_iff [of "sync_stmt u body" "b_entries body"] by blast
  moreover have "b_entries body \<noteq> []" using assms(1) by auto
  ultimately show ?thesis by (simp add: sync_insert_def)
qed

text \<open>
  C1. A sync with an entry that fails validation is to be rejected with the stored entries of
  the term exactly as they were. The handler runs the \<open>DELETE\<close> of the term as a statement of
  its own before it decodes any day: for \<open>[{day: "m", ...}, {day: "x", ...}]\<close> the day \<open>"x"\<close>
  is refused by \<open>dayKeyToNum\<close>, the request is answered with \<open>Sync failed\<close>, nothing is
  inserted, and the cell that was stored for the term is gone.
\<close>

theorem sync_refused_after_delete:
  "dayKeyToNum (DStr ''x'') = Inl InvalidDay
   \<and> b_entries bad_letter_request
       = [cell (DStr ''m'') (Fin 1) (Some ''CS101''), cell (DStr ''x'') (Fin 1) None]
   \<and> timetable_entries stored_db = [stored_row]
   \<and> entry_in_term ''u'' (b_year bad_letter_request) (b_semester bad_letter_request)
        (b_subTerm bad_letter_request) stored_row
   \<and> fst (sync 10 ''u'' bad_letter_request stored_db) = Inl SyncFailed
   \<and> timetable_entries (snd (sync 10 ''u'' bad_letter_request stored_db)) = []"
  by code_simp

text \<open>
  What does hold of a sync with an entry whose day does not decode to a number: it is rejected
  and inserts nothing, and it leaves the rows of other users and of other terms, the
  publication index and the settings as they were.
\<close>

lemma sync_undecodable_day_rejected:
  assumes "e \<in> set (b_entries body)"
    and "\<forall>n. dayKeyToNum (se_day e) \<noteq> Inr (DayNum n)"
  shows "fst (sync now u body d) = Inl SyncFailed
       \<and> set (timetable_entries (snd (sync now u body d))) \<subseteq> set (timetable_entries d)
       \<and> filter (\<lambda>r. \<not> entry_in_term u (b_year body) (b_semester body) (b_subTerm body) r)
           (timetable_entries (snd (sync now u body d)))
         = filter (\<lambda>r. \<not> entry_in_term u (b_year body) (b_semester body) (b_subTerm body) r)
           (timetable_entries d)
       \<and> timetable_published_terms (snd (sync now u body d)) = timetable_published_terms d
       \<and> timetable_settings (snd (sync now u body d)) = timetable_settings d"
proof -
  obtain err where "sync_insert now u body
      (filter (\<lambda>r. \<not> entry_in_term u (b_year body) (b_semester body) (b_subTerm body) r)
         (timetable_entries d)) = Inl err"
    using sync_insert_undecodable [OF assms] by blast
  then show ?thesis by (simp add: sync_def Let_def)
qed

text \<open>
  The period, the year, the semester and the sub-term of an entry are bound as \<open>Number\<close>
  gives them, in every handler: the period 3/2 is stored and the sync succeeds.
\<close>

lemma sync_half_period_stored:
  "(3 / 2 :: rat) \<notin> \<int>
   \<and> b_entries half_period_request = [cell (DStr ''m'') (Fin (3 / 2)) (Some ''CS101'')]
   \<and> fst (sync 10 ''u'' half_period_request stored_db) = Inr (sync_response half_period_request)
   \<and> timetable_entries (snd (sync 10 ''u'' half_period_request stored_db))
     = [\<lparr>e_user_id = ''u'', e_year = 2024, e_semester = 1, e_sub_term = 0, e_day = 1,
         e_period = 3 / 2, e_course_code = Some ''CS101'', e_course_name = None,
         e_instructor = None, e_updated_at = 10\<rparr>]"
proof -
  have "(3 / 2 :: rat) \<notin> \<int>" by simp
  moreover have "b_entries half_period_request = [cell (DStr ''m'') (Fin (3 / 2)) (Some ''CS101'')]"
    by (simp add: half_period_request_def sync_request_def)
  moreover have "fst (sync 10 ''u'' half_period_request stored_db)
      = Inr (sync_response half_period_request)"
    by code_simp
  moreover have "timetable_entries (snd (sync 10 ''u'' half_period_request stored_db))
     = [\<lparr>e_user_id = ''u'', e_year = 2024, e_semester = 1, e_sub_term = 0, e_day = 1,
         e_period = 3 / 2, e_course_code = Some ''CS101'', e_course_name = None,
         e_instructor = None, e_updated_at = 10\<rparr>]"
    by code_simp
  ultimately show ?thesis by blast
qed

section \<open>Properties of the publication index\<close>

lemma distinct_key_filter_le1:
  "distinct (map f xs) \<Longrightarrow> length (filter (\<lambda>x. f x = k) xs) \<le> 1"
proof (induction xs)
  case Nil
  then show ?case by simp
next
  case (Cons x xs)
  show ?case
  proof (cases "f x = k")
    case True
    with Cons.prems have "\<forall>y\<in>set xs. f y \<noteq> k" by (auto simp: image_iff)
    then have "filter (\<lambda>x. f x = k) xs = []" by (simp add: filter_empty_conv)
    with True show ?thesis by simp
  next
    case False
    with Cons show ?thesis by simp
  qed
qed

lemma count_le1:
  assumes "distinct (map published_key rows)"
    and "\<forall>r\<in>set rows. P r \<longrightarrow> published_key r = k"
  shows "length (filter P rows) \<le> 1"
proof -
  have "filter P rows = filter P (filter (\<lambda>r. published_key r = k) rows)"
    using assms(2) by (induction rows) auto
  then have "length (filter P rows) \<le> length (filter (\<lambda>r. published_key r = k) rows)"
    by (metis length_filter_le)
  also have "\<dots> \<le> 1" using assms(1) by (rule distinct_key_filter_le1)
  finally show ?thesis .
qed

lemma on_conflict_keys:
  assumes "\<And>r. published_key (upd r) = published_key r" and "distinct (map published_key rows)"
  shows "distinct (map published_key (on_conflict new upd rows))"
proof -
  have h: "map published_key (map (\<lambda>r. if published_key r = k then upd r else r) rows)
        = map published_key rows" for k
    using assms(1) by (induction rows) auto
  show ?thesis using assms(2) unfolding on_conflict_def by (simp only: h split: if_split) auto
qed

lemma on_conflict_same_count:
  assumes "\<And>r. P (upd r) = P r" and "\<not> P new"
  shows "length (filter P (on_conflict new upd rows)) = length (filter P rows)"
proof -
  have h: "length (filter P (map (\<lambda>r. if published_key r = k then upd r else r) rows))
        = length (filter P rows)" for k
    using assms(1) by (induction rows) auto
  show ?thesis using assms(2) unfolding on_conflict_def by (simp only: h split: if_split) auto
qed

lemma on_conflict_untouched:
  assumes "\<And>r. published_key r = published_key new \<Longrightarrow> \<not> P r \<and> \<not> P (upd r)" and "\<not> P new"
  shows "filter P (on_conflict new upd rows) = filter P rows"
proof -
  have h: "filter P (map (\<lambda>r. if published_key r = published_key new then upd r else r) rows)
        = filter P rows"
    using assms(1) by (induction rows) auto
  show ?thesis using assms(2) unfolding on_conflict_def by (simp only: h split: if_split) auto
qed

lemma published_values_Some:
  assumes "published_values now u y s st l = Some new"
  shows "\<exists>y' s' st'. sql_num y = Some y' \<and> sql_num s = Some s' \<and> sql_num st = Some st'
           \<and> p_user_id new = u \<and> p_is_latest new = l \<and> published_key new = (u, y', s', st')"
  using assms by (auto simp: published_values_def published_key_def split: option.splits)

lemma sql_and_user: "sql_true (sql_and (Some a) x) \<Longrightarrow> a"
  by (simp add: sql_true_def sql_and_def split: if_splits)

lemma sql_where_not_term:
  assumes "sql_num y = Some y'" "sql_num s = Some s'" "sql_num st = Some st'"
  shows "sql_true (sql_and (Some a)
            (sql_not (sql_and (sql_eq cy (sql_num y))
               (sql_and (sql_eq cs (sql_num s)) (sql_eq ct (sql_num st))))))
         = (a \<and> \<not> (cy = y' \<and> cs = s' \<and> ct = st'))"
  by (simp add: assms sql_true_def sql_and_def sql_not_def sql_eq_def)

lemma clear_others_keys: "map published_key (clear_others u y s st rows) = map published_key rows"
  unfolding clear_others_def by (induction rows) (simp_all add: published_key_def)

lemma clear_others_latest_key:
  assumes "sql_num y = Some y'" "sql_num s = Some s'" "sql_num st = Some st'"
    and "r \<in> set (clear_others u y s st rows)" and "is_latest_of u r"
  shows "published_key r = (u, y', s', st')"
proof -
  from assms(4) obtain r0 where r0: "r0 \<in> set rows"
    and r: "r = (if p_user_id r0 = u \<and> \<not> (p_year r0 = y' \<and> p_semester r0 = s' \<and> p_sub_term r0 = st')
                 then r0\<lparr>p_is_latest := 0\<rparr> else r0)"
    unfolding clear_others_def sql_where_not_term [OF assms(1,2,3)] by auto
  show ?thesis
  proof (cases "p_user_id r0 = u \<and> \<not> (p_year r0 = y' \<and> p_semester r0 = s' \<and> p_sub_term r0 = st')")
    case True
    with r assms(5) show ?thesis by (simp add: is_latest_of_def)
  next
    case False
    with r assms(5) show ?thesis by (auto simp: is_latest_of_def published_key_def)
  qed
qed

lemma filter_map_fix:
  assumes "\<And>r. (P (h r) \<longleftrightarrow> P r) \<and> (P r \<longrightarrow> h r = r)"
  shows "filter P (map h rows) = filter P rows"
  using assms by (induction rows) auto

lemma clear_others_other_owner:
  assumes "owner \<noteq> u"
  shows "filter (is_latest_of owner) (clear_others u y s st rows) = filter (is_latest_of owner) rows"
  unfolding clear_others_def
proof (rule filter_map_fix)
  fix r :: published_row
  let ?c = "sql_true (sql_and (Some (p_user_id r = u))
              (sql_not (sql_and (sql_eq (p_year r) (sql_num y))
                 (sql_and (sql_eq (p_semester r) (sql_num s))
                    (sql_eq (p_sub_term r) (sql_num st))))))"
  have "?c \<Longrightarrow> p_user_id r = u" by (rule sql_and_user)
  with assms show "(is_latest_of owner (if ?c then r\<lparr>p_is_latest := 0\<rparr> else r) \<longleftrightarrow> is_latest_of owner r)
        \<and> (is_latest_of owner r \<longrightarrow> (if ?c then r\<lparr>p_is_latest := 0\<rparr> else r) = r)"
    by (cases ?c) (auto simp: is_latest_of_def)
qed

lemma pinned_inv:
  assumes "distinct (map published_key rows')"
    and "sql_num y = Some y'" "sql_num s = Some s'" "sql_num st = Some st'"
    and "owner \<noteq> u \<Longrightarrow> length (filter (is_latest_of owner) rows') \<le> 1"
  shows "pub_inv owner (clear_others u y s st rows')"
proof (cases "owner = u")
  case True
  have d: "distinct (map published_key (clear_others u y s st rows'))"
    using assms(1) by (simp add: clear_others_keys)
  have "\<forall>r\<in>set (clear_others u y s st rows'). is_latest_of u r \<longrightarrow> published_key r = (u, y', s', st')"
    using clear_others_latest_key [OF assms(2,3,4)] by blast
  with d True show ?thesis unfolding pub_inv_def using count_le1 by blast
next
  case False
  then show ?thesis using assms(1,5)
    by (simp add: pub_inv_def clear_others_keys clear_others_other_owner)
qed

lemma upsert_inv:
  assumes new: "published_values now u y s st l = Some new"
    and key: "\<And>r. published_key (upd r) = published_key r"
    and inv: "pub_inv owner rows"
  shows "distinct (map published_key (on_conflict new upd rows))"
    and "owner \<noteq> u \<Longrightarrow> length (filter (is_latest_of owner) (on_conflict new upd rows)) \<le> 1"
proof -
  show "distinct (map published_key (on_conflict new upd rows))"
    using on_conflict_keys [of upd rows new] key inv by (simp add: pub_inv_def)
  assume ne: "owner \<noteq> u"
  have nu: "p_user_id new = u" using published_values_Some [OF new] by blast
  have "filter (is_latest_of owner) (on_conflict new upd rows) = filter (is_latest_of owner) rows"
  proof (rule on_conflict_untouched)
    fix r :: published_row
    assume k: "published_key r = published_key new"
    then have "p_user_id r = u" using nu by (simp add: published_key_def)
    moreover have "p_user_id (upd r) = u"
      using key [of r] k nu by (simp add: published_key_def)
    ultimately show "\<not> is_latest_of owner r \<and> \<not> is_latest_of owner (upd r)"
      using ne by (simp add: is_latest_of_def)
  next
    show "\<not> is_latest_of owner new" using nu ne by (simp add: is_latest_of_def)
  qed
  then show "length (filter (is_latest_of owner) (on_conflict new upd rows)) \<le> 1"
    using inv by (simp add: pub_inv_def)
qed

lemma publish_pub_inv:
  assumes "pub_inv owner (timetable_published_terms d)"
  shows "pub_inv owner (timetable_published_terms (snd (publish now u body d)))"
proof (cases "published_values now u (pb_year body) (pb_semester body) (pb_subTerm body)
                (if pb_latest body then 1 else 0)")
  case None
  then show ?thesis using assms by (simp add: publish_def publish_upsert_def Let_def)
next
  case (Some new)
  let ?upd = "\<lambda>r. r\<lparr>p_published_at := p_published_at new,
                      p_is_latest := (if (if pb_latest body then 1 else 0) = (1::int) then 1 else p_is_latest r)\<rparr>"
  let ?p = "on_conflict new ?upd (timetable_published_terms d)"
  have up: "publish_upsert now u (pb_year body) (pb_semester body) (pb_subTerm body)
                (if pb_latest body then 1 else 0) (timetable_published_terms d) = Inr ?p"
    using Some by (simp add: publish_upsert_def)
  have key: "\<And>r. published_key (?upd r) = published_key r" by (simp add: published_key_def)
  obtain y' s' st' where f: "sql_num (pb_year body) = Some y'" "sql_num (pb_semester body) = Some s'"
      "sql_num (pb_subTerm body) = Some st'" and nl: "p_is_latest new = (if pb_latest body then 1 else 0)"
    using published_values_Some [OF Some] by blast
  show ?thesis
  proof (cases "pb_latest body")
    case True
    have "pub_inv owner (clear_others u (pb_year body) (pb_semester body) (pb_subTerm body) ?p)"
      using upsert_inv [OF Some key assms] by (intro pinned_inv [OF _ f]) auto
    with True up assms show ?thesis by (simp add: publish_def Let_def)
  next
    case False
    have "length (filter (is_latest_of owner) ?p)
          = length (filter (is_latest_of owner) (timetable_published_terms d))"
      using False nl by (intro on_conflict_same_count) (simp_all add: is_latest_of_def)
    then have "pub_inv owner ?p"
      using upsert_inv(1) [OF Some key assms] assms by (simp add: pub_inv_def)
    with False up assms show ?thesis by (simp add: publish_def Let_def)
  qed
qed

lemma sync_publish_pub_inv:
  assumes "pub_inv owner rows" and "sync_publish now u body rows = Inr p"
  shows "pub_inv owner p"
proof -
  obtain new where new: "published_values now u (b_year body) (b_semester body) (b_subTerm body) 1 = Some new"
    using assms(2) by (auto simp: sync_publish_def sync_upsert_def split: option.splits)
  let ?upd = "\<lambda>r. r\<lparr>p_is_latest := 1, p_published_at := p_published_at new\<rparr>"
  have p: "p = clear_others u (b_year body) (b_semester body) (b_subTerm body) (on_conflict new ?upd rows)"
    using assms(2) new by (simp add: sync_publish_def sync_upsert_def)
  have key: "\<And>r. published_key (?upd r) = published_key r" by (simp add: published_key_def)
  obtain y' s' st' where f: "sql_num (b_year body) = Some y'" "sql_num (b_semester body) = Some s'"
      "sql_num (b_subTerm body) = Some st'"
    using published_values_Some [OF new] by blast
  show ?thesis unfolding p
    using upsert_inv [OF new key assms(1)] by (intro pinned_inv [OF _ f]) auto
qed

lemma sync_pub_inv:
  assumes "pub_inv owner (timetable_published_terms d)"
  shows "pub_inv owner (timetable_published_terms (snd (sync now u body d)))"
proof (cases "sync_insert now u body (filter (\<lambda>r. \<not> entry_in_term u (b_year body) (b_semester body) (b_subTerm body) r) (timetable_entries d))")
  case (Inl e)
  then show ?thesis using assms by (simp add: sync_def Let_def)
next
  case (Inr rows)
  show ?thesis
  proof (cases "sync_publish now u body (timetable_published_terms d)")
    case (Inl e)
    with Inr assms show ?thesis by (simp add: sync_def Let_def)
  next
    case (Inr p)
    with \<open>sync_insert _ _ _ _ = Inr rows\<close> assms sync_publish_pub_inv [OF assms Inr]
    show ?thesis by (simp add: sync_def Let_def)
  qed
qed

lemma serve_pub_inv:
  assumes "pub_inv owner (timetable_published_terms d)"
  shows "pub_inv owner (timetable_published_terms (serve d req))"
  using assms by (cases req) (simp_all add: publish_pub_inv sync_pub_inv)

lemma serve_all_pub_inv:
  assumes "pub_inv owner (timetable_published_terms d)"
  shows "pub_inv owner (timetable_published_terms (serve_all d reqs))"
  using assms unfolding serve_all_def
  by (induction reqs arbitrary: d) (simp_all add: serve_pub_inv)

text \<open>
  C2. From a publication index that satisfies its primary key and in which at most one row of
  an owner is flagged \<open>is_latest = 1\<close>, every sequence of publish requests (with any
  \<open>latest\<close> flag) and sync requests (with or without \<open>publishLatest\<close>), by any users, served
  one after the other, leaves at most one flagged row of that owner.
\<close>

theorem at_most_one_latest_preserved:
  assumes "distinct (map published_key (timetable_published_terms d))"
    and "length (latest_rows owner d) \<le> 1"
  shows "length (latest_rows owner (serve_all d reqs)) \<le> 1"
  using serve_all_pub_inv [of owner d reqs] assms
  by (simp add: pub_inv_def latest_rows_def)

text \<open>Four requests against an index in which \<open>u\<close> has one flagged term.\<close>

theorem at_most_one_latest_preserved_witness:
  "distinct (map published_key (timetable_published_terms published_db))
   \<and> length (latest_rows ''u'' published_db) \<le> 1
   \<and> length (latest_rows ''u'' (serve_all published_db publishing_requests)) \<le> 1"
proof -
  have a: "distinct (map published_key (timetable_published_terms published_db))"
    by code_simp
  have b: "length (latest_rows ''u'' published_db) \<le> 1"
    by code_simp
  show ?thesis
    using a b at_most_one_latest_preserved [OF a b, of publishing_requests] by simp
qed

text \<open>The flagged term after those requests is the one the sync pinned.\<close>

lemma publishing_requests_result:
  "map published_key (latest_rows ''u'' (serve_all published_db publishing_requests))
   = [(''u'', 2024, 1, 0)]"
  by code_simp

section \<open>Properties of the copy\<close>

text \<open>
  C9. When the source has no settings row, or its row does not have both \<open>is_public = 1\<close> and
  \<open>allow_copy = 1\<close>, the copy fails with \<open>Copy not allowed\<close> and the database is left as it
  was.
\<close>

theorem copy_not_allowed:
  assumes "\<not> (\<exists>r. timetable_settings d sourceUserId = Some r \<and> s_is_public r = 1 \<and> s_allow_copy r = 1)"
  shows "copy now u sourceUserId year semester subTerm d = (Inl CopyNotAllowed, d)"
  using assms by (auto simp: copy_def split: option.splits)

text \<open>The source is public and does not allow copies.\<close>

theorem copy_not_allowed_witness:
  "\<not> (\<exists>r. timetable_settings no_copy_db ''u'' = Some r \<and> s_is_public r = 1 \<and> s_allow_copy r = 1)
   \<and> copy 10 ''w'' ''u'' (Fin 2024) (Fin 1) (Fin 0) no_copy_db = (Inl CopyNotAllowed, no_copy_db)"
proof -
  have a: "\<not> (\<exists>r. timetable_settings no_copy_db ''u'' = Some r \<and> s_is_public r = 1
               \<and> s_allow_copy r = 1)"
    by (simp add: no_copy_db_def stored_db_def)
  show ?thesis
    using a copy_not_allowed [OF a, of 10 "''w''" "Fin 2024" "Fin 1" "Fin 0"] by simp
qed

section \<open>Properties of the visibility gate\<close>



text \<open>
  In the handler the gate runs after the owner's \<open>custom_colors\<close> have been parsed: a denial of
  the gate is the handler's answer whenever that text is absent, empty or valid JSON.
\<close>

lemma get_timetable_denied:
  assumes "customColors_of JSON_parse (timetable_settings d ownerUid) = Inr cc"
    and "visibility_gate d (isPublic_of (timetable_settings d ownerUid))
           (allowFollowers_of (allow_followers_col d) (timetable_settings d ownerUid))
           viewer ownerUid = Inl e"
  shows "get_timetable JSON_parse viewer ownerUid qYear qSem qSub d = Inl e"
  using assms by (simp add: get_timetable_def Let_def)

lemma get_timetable_colors_first:
  assumes "customColors_of JSON_parse (timetable_settings d ownerUid) = Inl e"
  shows "get_timetable JSON_parse viewer ownerUid qYear qSem qSub d = Inl e"
  using assms by (simp add: get_timetable_def Let_def)

lemma map_throw_total:
  assumes "\<forall>x\<in>set xs. \<exists>y. f x = Inr y"
  shows "\<exists>ys. map_throw f xs = Inr ys"
  using assms by (induction xs) (auto split: sum.splits)

lemma view_entry_of_ok: "1 \<le> e_day r \<Longrightarrow> e_day r \<le> 5 \<Longrightarrow> \<exists>v. view_entry_of r = Inr v"
  by (auto simp: view_entry_of_def dayNumToKey_def)

lemma map_throw_err: "map_throw f xs = Inl e \<Longrightarrow> \<exists>x\<in>set xs. f x = Inl e"
  by (induction xs) (auto split: sum.splits)

lemma view_entry_of_err: "view_entry_of r = Inl e \<Longrightarrow> e = BadDayNum"
  by (auto simp: view_entry_of_def dayNumToKey_def split: if_splits sum.splits)

lemma render_err:
  "map_throw view_entry_of rows = Inl e \<Longrightarrow> e = BadDayNum"
  using map_throw_err view_entry_of_err by blast

text \<open>
  C10. For an owner without a settings row, every read by anyone else, anonymous or
  authenticated, follower or not, is denied with \<open>Timetable is private\<close>; the owner's own
  authenticated read is not denied, and it returns a response whenever the owner's stored days
  are in 1..5.
\<close>

theorem no_settings_row_private:
  assumes "timetable_settings d ownerUid = None"
  shows "(viewer \<noteq> Some ownerUid \<longrightarrow>
            get_timetable JSON_parse viewer ownerUid qYear qSem qSub d = Inl PrivateTimetable)
       \<and> get_timetable JSON_parse (Some ownerUid) ownerUid qYear qSem qSub d \<noteq> Inl PrivateTimetable
       \<and> ((\<forall>r\<in>set (timetable_entries d). e_user_id r = ownerUid \<longrightarrow> 1 \<le> e_day r \<and> e_day r \<le> 5) \<longrightarrow>
            (\<exists>resp. get_timetable JSON_parse (Some ownerUid) ownerUid qYear qSem qSub d = Inr resp))"
proof (intro conjI impI)
  assume "viewer \<noteq> Some ownerUid"
  then show "get_timetable JSON_parse viewer ownerUid qYear qSem qSub d = Inl PrivateTimetable"
    using assms
    by (cases viewer)
       (simp_all add: get_timetable_def Let_def isPublic_of_def allowFollowers_of_def
          customColors_of_def visibility_gate_def)
next
  have g: "visibility_gate d (isPublic_of None) (allowFollowers_of (allow_followers_col d) None) (Some ownerUid) ownerUid = Inr ()"
    by (simp add: visibility_gate_def)
  show "get_timetable JSON_parse (Some ownerUid) ownerUid qYear qSem qSub d \<noteq> Inl PrivateTimetable"
    using assms g
    by (auto simp: get_timetable_def Let_def customColors_of_def dest: render_err
          split: option.splits sum.splits prod.splits)
next
  assume ok: "\<forall>r\<in>set (timetable_entries d). e_user_id r = ownerUid \<longrightarrow> 1 \<le> e_day r \<and> e_day r \<le> 5"
  have g: "visibility_gate d (isPublic_of None) (allowFollowers_of (allow_followers_col d) None) (Some ownerUid) ownerUid = Inr ()"
    by (simp add: visibility_gate_def)
  have "\<exists>ys. map_throw view_entry_of
                (sort_key (\<lambda>r. (e_day r, e_period r))
                   (filter (entry_in_term ownerUid y s t) (timetable_entries d))) = Inr ys" for y s t
  proof (rule map_throw_total, rule ballI)
    fix r assume "r \<in> set (sort_key (\<lambda>r. (e_day r, e_period r))
                   (filter (entry_in_term ownerUid y s t) (timetable_entries d)))"
    then have "r \<in> set (timetable_entries d)" "entry_in_term ownerUid y s t r" by auto
    then have "1 \<le> e_day r \<and> e_day r \<le> 5"
      using ok by (auto simp: entry_in_term_def sql_true_def sql_and_def split: if_splits)
    then show "\<exists>v. view_entry_of r = Inr v" using view_entry_of_ok by blast
  qed
  note tot = this
  show "\<exists>resp. get_timetable JSON_parse (Some ownerUid) ownerUid qYear qSem qSub d = Inr resp"
  proof (cases "resolve_term d ownerUid qYear qSem qSub")
    case None
    then show ?thesis using assms g
      by (simp add: get_timetable_def Let_def customColors_of_def)
  next
    case (Some t)
    obtain y s st where t: "t = (y, s, st)" by (cases t) auto
    obtain ys where "map_throw view_entry_of
                (sort_key (\<lambda>r. (e_day r, e_period r))
                   (filter (entry_in_term ownerUid y s st) (timetable_entries d))) = Inr ys"
      using tot by blast
    then show ?thesis using assms g Some t
      by (simp add: get_timetable_def Let_def customColors_of_def)
  qed
qed

text \<open>
  Nobody has a settings row in the stored table: the reads of \<open>v\<close> and of an anonymous caller
  are denied, the read of \<open>u\<close> is answered.
\<close>

theorem no_settings_row_private_witness:
  "timetable_settings stored_db ''u'' = None
   \<and> Some ''v'' \<noteq> Some ''u''
   \<and> get_timetable Some (Some ''v'') ''u'' NaN NaN NaN stored_db = Inl PrivateTimetable
   \<and> None \<noteq> Some ''u''
   \<and> get_timetable Some None ''u'' NaN NaN NaN stored_db = Inl PrivateTimetable
   \<and> timetable_entries stored_db = [stored_row]
   \<and> 1 \<le> e_day stored_row \<and> e_day stored_row \<le> 5
   \<and> (\<exists>resp. get_timetable Some (Some ''u'') ''u'' NaN NaN NaN stored_db = Inr resp)"
proof -
  have a: "timetable_settings stored_db ''u'' = None"
    by (simp add: stored_db_def)
  have b: "\<forall>r\<in>set (timetable_entries stored_db). e_user_id r = ''u'' \<longrightarrow> 1 \<le> e_day r \<and> e_day r \<le> 5"
    by (simp add: stored_db_def stored_row_def)
  have c: "timetable_entries stored_db = [stored_row]"
    "1 \<le> e_day stored_row \<and> e_day stored_row \<le> 5"
    by (simp_all add: stored_db_def stored_row_def)
  show ?thesis
    using a b c
      no_settings_row_private [OF a, of "Some ''v''" Some NaN NaN NaN]
      no_settings_row_private [OF a, of None Some NaN NaN NaN]
    by simp
qed

section \<open>Properties of the publication step of the sync\<close>

lemma sync_insert_publishLatest [simp]:
  "sync_insert now u (body\<lparr>b_publishLatest := pl\<rparr>) rows = sync_insert now u body rows"
proof -
  have "sync_stmt u (body\<lparr>b_publishLatest := pl\<rparr>) = sync_stmt u body"
    by (rule ext) (simp add: sync_stmt_def split: sum.splits daynum.splits option.splits)
  then show ?thesis by (simp add: sync_insert_def)
qed

text \<open>
  C8, as the code has it. When the entries have been replaced and the \<open>publishLatest\<close> step
  fails, the sync still answers success, with the replaced entries kept and the publication
  index untouched. The failure is logged and dropped: the response has the four fields
  \<open>success\<close>, \<open>deleted\<close>, \<open>inserted\<close> and \<open>message\<close>, and the request has the very outcome of
  the same request without \<open>publishLatest\<close>.
\<close>

theorem sync_publish_failure_dropped:
  assumes "b_publishLatest body"
    and "sync_insert now u body
           (filter (\<lambda>r. \<not> entry_in_term u (b_year body) (b_semester body) (b_subTerm body) r)
              (timetable_entries d)) = Inr rows"
    and "sync_publish now u body (timetable_published_terms d) = Inl e"
  shows "sync now u body d = (Inr (sync_response body), d\<lparr>timetable_entries := rows\<rparr>)
       \<and> map fst (sync_response body) = [''success'', ''deleted'', ''inserted'', ''message'']
       \<and> sync now u (body\<lparr>b_publishLatest := False\<rparr>) d = sync now u body d"
  using assms by (simp add: sync_def Let_def sync_response_def)

text \<open>
  The body has no usable sub-term, so that the upsert of the publication step is refused,
  while the entry names its own sub-term and is stored.
\<close>

theorem sync_publish_failure_dropped_witness:
  "b_publishLatest own_subterm_request
   \<and> sync_publish 10 ''u'' own_subterm_request (timetable_published_terms stored_db) = Inl D1Error
   \<and> fst (sync 10 ''u'' own_subterm_request stored_db) = Inr (sync_response own_subterm_request)
   \<and> sync 10 ''u'' (own_subterm_request\<lparr>b_publishLatest := False\<rparr>) stored_db
       = sync 10 ''u'' own_subterm_request stored_db"
proof -
  have a: "b_publishLatest own_subterm_request" by code_simp
  have b: "sync_insert 10 ''u'' own_subterm_request
           (filter (\<lambda>r. \<not> entry_in_term ''u'' (b_year own_subterm_request)
                         (b_semester own_subterm_request) (b_subTerm own_subterm_request) r)
              (timetable_entries stored_db))
       = Inr [stored_row,
              \<lparr>e_user_id = ''u'', e_year = 2024, e_semester = 1, e_sub_term = 0, e_day = 1,
               e_period = 1, e_course_code = Some ''CS101'', e_course_name = None,
               e_instructor = None, e_updated_at = 10\<rparr>]"
    by code_simp
  have c: "sync_publish 10 ''u'' own_subterm_request (timetable_published_terms stored_db) = Inl D1Error"
    by code_simp
  show ?thesis
    using a c sync_publish_failure_dropped [OF a b c] by simp
qed

text \<open>
  C8 as stated fails in its last part: the response to the request whose publication step
  failed carries no warning and is the response to the same request without \<open>publishLatest\<close>.
\<close>

theorem sync_publish_failure_counterexample:
  "sync_publish 10 ''u'' own_subterm_request (timetable_published_terms stored_db) = Inl D1Error
   \<and> fst (sync 10 ''u'' own_subterm_request stored_db)
       = Inr [(''success'', JBool True), (''deleted'', JBool True), (''inserted'', JCount 1),
              (''message'', JSynced 1 (Fin 2024) (Fin 1) NaN)]
   \<and> fst (sync 10 ''u'' (own_subterm_request\<lparr>b_publishLatest := False\<rparr>) stored_db)
       = fst (sync 10 ''u'' own_subterm_request stored_db)
   \<and> timetable_published_terms (snd (sync 10 ''u'' own_subterm_request stored_db)) = []"
  by code_simp

section \<open>Properties of a sync followed by a read\<close>

lemma map_throw_rel: "map_throw f xs = Inr ys \<Longrightarrow> list_all2 (\<lambda>x y. f x = Inr y) xs ys"
  by (induction xs arbitrary: ys) (auto split: sum.splits)

lemma batch_rel:
  "batch now stmts base = Inr rows
   \<Longrightarrow> \<exists>new. rows = base @ new \<and> list_all2 (\<lambda>i r. insert_row now i = Some r) stmts new"
proof (induction stmts arbitrary: base)
  case Nil
  then show ?case by simp
next
  case (Cons i stmts)
  from Cons.prems obtain r where r: "insert_row now i = Some r"
    and rest: "batch now stmts (base @ [r]) = Inr rows"
    by (auto simp: run_insert_def split: sum.splits option.splits if_splits)
  from Cons.IH [OF rest] obtain new where "rows = (base @ [r]) @ new"
    and "list_all2 (\<lambda>i r. insert_row now i = Some r) stmts new" by blast
  with r have "rows = base @ (r # new) \<and> list_all2 (\<lambda>i r. insert_row now i = Some r) (i # stmts) (r # new)"
    by simp
  then show ?case by blast
qed

lemma sync_insert_rel:
  assumes "sync_insert now u body base = Inr rows"
  shows "\<exists>new. rows = base @ new
           \<and> list_all2 (\<lambda>e r. \<exists>i. sync_stmt u body e = Inr i \<and> insert_row now i = Some r)
                (b_entries body) new"
proof (cases "b_entries body = []")
  case True
  with assms show ?thesis by (simp add: sync_insert_def)
next
  case False
  with assms obtain stmts where m: "map_throw (sync_stmt u body) (b_entries body) = Inr stmts"
    and b: "batch now stmts base = Inr rows"
    by (auto simp: sync_insert_def split: sum.splits)
  from batch_rel [OF b] obtain new where n: "rows = base @ new"
    and l: "list_all2 (\<lambda>i r. insert_row now i = Some r) stmts new" by blast
  have "list_all2 (\<lambda>e r. \<exists>i. sync_stmt u body e = Inr i \<and> insert_row now i = Some r)
          (b_entries body) new"
    using map_throw_rel [OF m] l
    by (auto simp: list_all2_conv_all_nth)
  with n show ?thesis by blast
qed

lemma list_all2_map_eq: "list_all2 (\<lambda>x y. f x = g y) xs ys \<Longrightarrow> map f xs = map g ys"
  by (induction rule: list_all2_induct) auto

lemma map_insort_key: "map h (insort_key (\<lambda>x. k (h x)) a xs) = insort_key k (h a) (map h xs)"
  by (induction xs) auto

lemma map_sort_key: "map h (sort_key (\<lambda>x. k (h x)) xs) = sort_key k (map h xs)"
  by (induction xs) (auto simp: map_insort_key)

lemma view_entry_of_cell: "view_entry_of r = Inr v \<Longrightarrow> view_cell v = row_cell r \<and> v_sub_term v = e_sub_term r \<and> dayNumToKey (Fin (v_dayNum v)) = Inr (v_day v)"
  by (auto simp: view_entry_of_def view_cell_def row_cell_def text_of_def split: sum.splits)

lemma in_term_finite:
  "entry_in_term u (Fin y) (Fin s) (Fin st) r
   \<longleftrightarrow> e_user_id r = u \<and> e_year r = y \<and> e_semester r = s \<and> e_sub_term r = st"
  by (auto simp: entry_in_term_def sql_true_def sql_and_def sql_eq_def sql_num_def)

lemma stored_entry:
  assumes "b_year body = Fin y" "b_semester body = Fin s" "b_subTerm body = Fin st"
    and "names_term y s st e" and "day_in_range e"
    and "sync_stmt u body e = Inr i" and "insert_row now i = Some r"
  shows "entry_in_term u (Fin y) (Fin s) (Fin st) r \<and> entry_cell e = Some (row_cell r)
         \<and> 1 \<le> e_day r \<and> e_day r \<le> 5"
proof -
  from assms(5) obtain q where q: "dayKeyToNum (se_day e) = Inr (DayNum (Fin q))" "1 \<le> q" "q \<le> 5"
    by (auto simp: day_in_range_def)
  have i: "i = \<lparr>i_user_id = u, i_year = Fin y, i_semester = Fin s, i_sub_term = Fin st,
               i_day = Fin q, i_period = se_period e, i_course_code = se_courseCode e,
               i_course_name = se_courseName e, i_instructor = se_instructor e\<rparr>"
    using assms(1,2,3,4,6) q(1) by (auto simp: sync_stmt_def names_term_def Let_def)
  from assms(7) obtain p where p: "se_period e = Fin p"
    and r: "r = \<lparr>e_user_id = u, e_year = y, e_semester = s, e_sub_term = st, e_day = q,
                e_period = p, e_course_code = se_courseCode e, e_course_name = se_courseName e,
                e_instructor = se_instructor e, e_updated_at = now\<rparr>"
    unfolding i by (cases "se_period e") (auto simp: insert_row_def sql_num_def)
  show ?thesis using q p
    by (simp add: r in_term_finite entry_cell_def row_cell_def)
qed

lemma sync_term_rows:
  assumes t: "b_year body = Fin y" "b_semester body = Fin s" "b_subTerm body = Fin st"
    and own: "\<forall>e\<in>set (b_entries body). names_term y s st e"
    and days: "\<forall>e\<in>set (b_entries body). day_in_range e"
    and ok: "sync now u body d = (Inr resp, d')"
  shows "\<exists>new. filter (entry_in_term u (Fin y) (Fin s) (Fin st)) (timetable_entries d') = new
           \<and> map entry_cell (b_entries body) = map Some (map row_cell new)
           \<and> (\<forall>r\<in>set new. 1 \<le> e_day r \<and> e_day r \<le> 5)
           \<and> timetable_settings d' = timetable_settings d"
proof -
  let ?base = "filter (\<lambda>r. \<not> entry_in_term u (Fin y) (Fin s) (Fin st) r) (timetable_entries d)"
  from ok obtain rows where ins: "sync_insert now u body ?base = Inr rows"
    and d': "timetable_entries d' = rows" "timetable_settings d' = timetable_settings d"
    using t by (auto simp: sync_def Let_def split: sum.splits if_splits)
  from sync_insert_rel [OF ins] obtain new where rows: "rows = ?base @ new"
    and rel: "list_all2 (\<lambda>e r. \<exists>i. sync_stmt u body e = Inr i \<and> insert_row now i = Some r)
                (b_entries body) new" by blast
  have each: "list_all2 (\<lambda>e r. entry_in_term u (Fin y) (Fin s) (Fin st) r
                   \<and> entry_cell e = Some (row_cell r) \<and> 1 \<le> e_day r \<and> e_day r \<le> 5)
                (b_entries body) new"
  proof (rule list.rel_mono_strong [OF rel])
    fix e r
    assume "e \<in> set (b_entries body)"
      and "\<exists>i. sync_stmt u body e = Inr i \<and> insert_row now i = Some r"
    then show "entry_in_term u (Fin y) (Fin s) (Fin st) r
                   \<and> entry_cell e = Some (row_cell r) \<and> 1 \<le> e_day r \<and> e_day r \<le> 5"
      using own days stored_entry [OF t] by blast
  qed
  then have inn: "\<forall>r\<in>set new. entry_in_term u (Fin y) (Fin s) (Fin st) r \<and> 1 \<le> e_day r \<and> e_day r \<le> 5"
    by (auto simp: list_all2_conv_all_nth in_set_conv_nth)
  then have "filter (entry_in_term u (Fin y) (Fin s) (Fin st)) rows = new"
    unfolding rows by (simp add: filter_id_conv)
  moreover have "map entry_cell (b_entries body) = map (\<lambda>r. Some (row_cell r)) new"
    using each by (intro list_all2_map_eq) (auto simp: list_all2_conv_all_nth)
  ultimately show ?thesis using d' inn by simp
qed

text \<open>
  C4, as the code has it. Let the sync of a term of three finite numbers succeed, with
  entries that name no other term and whose days decode to numbers of 1..5. Then every
  answered read of that term returns exactly the cells of the entries, ordered by day and then
  by period, with that term as the selected one; and the owner's own read is answered
  whenever the owner's colours parse.
\<close>

theorem sync_then_fetch:
  assumes t: "b_year body = Fin y" "b_semester body = Fin s" "b_subTerm body = Fin st"
    and own: "\<forall>e\<in>set (b_entries body). names_term y s st e"
    and days: "\<forall>e\<in>set (b_entries body). day_in_range e"
    and ok: "sync now u body d = (Inr resp, d')"
  shows "(\<forall>r. get_timetable JSON_parse viewer u (Fin y) (Fin s) (Fin st) d' = Inr r \<longrightarrow>
            (\<exists>cells. map entry_cell (b_entries body) = map Some cells
                 \<and> map view_cell (r_entries r) = sort_key cell_key cells)
            \<and> sorted (map (\<lambda>v. (v_dayNum v, v_period v)) (r_entries r))
            \<and> r_selected r = Some (Fin y, Fin s, Fin st))
       \<and> (customColors_of JSON_parse (timetable_settings d u) \<noteq> Inl SyntaxError \<longrightarrow>
            (\<exists>r. get_timetable JSON_parse (Some u) u (Fin y) (Fin s) (Fin st) d' = Inr r))"
proof -
  from sync_term_rows [OF t own days ok] obtain new where
    f: "filter (entry_in_term u (Fin y) (Fin s) (Fin st)) (timetable_entries d') = new"
    and c: "map entry_cell (b_entries body) = map Some (map row_cell new)"
    and rng: "\<forall>r\<in>set new. 1 \<le> e_day r \<and> e_day r \<le> 5"
    and st: "timetable_settings d' = timetable_settings d" by blast
  let ?sorted = "sort_key (\<lambda>r. (e_day r, e_period r)) new"
  have res: "resolve_term d' u (Fin y) (Fin s) (Fin st) = Some (Fin y, Fin s, Fin st)"
    by (simp add: resolve_term_def noTermSpecified_def isNaN_def)
  have key: "(\<lambda>r. (e_day r, e_period r)) = (\<lambda>r. cell_key (row_cell r))"
    by (simp add: cell_key_def row_cell_def)
  have srt: "map row_cell ?sorted = sort_key cell_key (map row_cell new)"
    unfolding key by (rule map_sort_key)
  have part1: "(\<exists>cells. map entry_cell (b_entries body) = map Some cells
                 \<and> map view_cell (r_entries r) = sort_key cell_key cells)
            \<and> sorted (map (\<lambda>v. (v_dayNum v, v_period v)) (r_entries r))
            \<and> r_selected r = Some (Fin y, Fin s, Fin st)"
    if g: "get_timetable JSON_parse viewer u (Fin y) (Fin s) (Fin st) d' = Inr r" for r
  proof -
    from g have m: "map_throw view_entry_of ?sorted = Inr (r_entries r)"
      and sel: "r_selected r = Some (Fin y, Fin s, Fin st)"
      using res f by (auto simp: get_timetable_def Let_def split: sum.splits)
    have rel: "list_all2 (\<lambda>x v. view_entry_of x = Inr v) ?sorted (r_entries r)"
      using map_throw_rel [OF m] .
    have vc: "map row_cell ?sorted = map view_cell (r_entries r)"
      using rel view_entry_of_cell by (intro list_all2_map_eq) (auto simp: list_all2_conv_all_nth)
    have "map (\<lambda>r. (e_day r, e_period r)) ?sorted = map (\<lambda>v. (v_dayNum v, v_period v)) (r_entries r)"
      using rel view_entry_of_cell
      by (intro list_all2_map_eq) (auto simp: list_all2_conv_all_nth view_cell_def row_cell_def)
    moreover have "sorted (map (\<lambda>r. (e_day r, e_period r)) ?sorted)" by (rule sorted_sort_key)
    ultimately have "sorted (map (\<lambda>v. (v_dayNum v, v_period v)) (r_entries r))" by simp
    moreover have "map entry_cell (b_entries body) = map Some (map row_cell new)
        \<and> map view_cell (r_entries r) = sort_key cell_key (map row_cell new)"
      using c vc srt by simp
    ultimately show ?thesis using sel by blast
  qed
  have part2: "\<exists>r. get_timetable JSON_parse (Some u) u (Fin y) (Fin s) (Fin st) d' = Inr r"
    if pc: "customColors_of JSON_parse (timetable_settings d u) \<noteq> Inl SyntaxError"
  proof -
    obtain cc where cc: "customColors_of JSON_parse (timetable_settings d' u) = Inr cc"
      using pc st by (auto simp: customColors_of_def split: option.splits if_splits)
    have gate: "visibility_gate d' ip af (Some u) u = Inr ()" for ip af
      by (simp add: visibility_gate_def)
    have "\<forall>x\<in>set ?sorted. \<exists>v. view_entry_of x = Inr v"
      using rng view_entry_of_ok by simp
    from map_throw_total [OF this] obtain vs where "map_throw view_entry_of ?sorted = Inr vs" by blast
    then show ?thesis using cc gate res f
      by (simp add: get_timetable_def Let_def)
  qed
  from part1 part2 show ?thesis by blast
qed

text \<open>Two cells sent out of order replace the stored cell of the term.\<close>

theorem sync_then_fetch_witness:
  "b_year two_cells_request = Fin 2024 \<and> b_semester two_cells_request = Fin 1
   \<and> b_subTerm two_cells_request = Fin 0
   \<and> b_entries two_cells_request
       = [cell (DStr ''t'') (Fin 2) (Some ''CS102''), cell (DStr ''m'') (Fin 1) (Some ''CS101'')]
   \<and> names_term 2024 1 0 (cell (DStr ''t'') (Fin 2) (Some ''CS102''))
   \<and> names_term 2024 1 0 (cell (DStr ''m'') (Fin 1) (Some ''CS101''))
   \<and> day_in_range (cell (DStr ''t'') (Fin 2) (Some ''CS102''))
   \<and> day_in_range (cell (DStr ''m'') (Fin 1) (Some ''CS101''))
   \<and> fst (sync 10 ''u'' two_cells_request stored_db) = Inr (sync_response two_cells_request)
   \<and> (\<exists>r. get_timetable Some (Some ''u'') ''u'' (Fin 2024) (Fin 1) (Fin 0)
             (snd (sync 10 ''u'' two_cells_request stored_db)) = Inr r
          \<and> (\<exists>cells. map entry_cell (b_entries two_cells_request) = map Some cells
                 \<and> map view_cell (r_entries r) = sort_key cell_key cells)
          \<and> sorted (map (\<lambda>v. (v_dayNum v, v_period v)) (r_entries r))
          \<and> r_selected r = Some (Fin 2024, Fin 1, Fin 0))"
proof -
  let ?R = two_cells_request
  let ?d' = "snd (sync 10 ''u'' ?R stored_db)"
  have t: "b_year ?R = Fin 2024" "b_semester ?R = Fin 1" "b_subTerm ?R = Fin 0"
    by (simp_all add: two_cells_request_def sync_request_def)
  have own: "\<forall>e\<in>set (b_entries ?R). names_term 2024 1 0 e"
    by (simp add: two_cells_request_def sync_request_def cell_def names_term_def)
  have "dayKeyToNum (DStr ''t'') = Inr (DayNum (Fin 2))"
    and "dayKeyToNum (DStr ''m'') = Inr (DayNum (Fin 1))"
    by code_simp+
  then have days: "\<forall>e\<in>set (b_entries ?R). day_in_range e"
    by (simp add: two_cells_request_def sync_request_def cell_def day_in_range_def)
  have f: "fst (sync 10 ''u'' ?R stored_db) = Inr (sync_response ?R)"
    by code_simp
  then have ok: "sync 10 ''u'' ?R stored_db = (Inr (sync_response ?R), ?d')"
    by (simp add: prod_eq_iff)
  have cc: "customColors_of Some (timetable_settings stored_db ''u'') \<noteq> Inl SyntaxError"
    by (simp add: stored_db_def customColors_of_def)
  from sync_then_fetch [OF t own days ok, of Some "Some ''u''"] cc
  have "\<exists>r. get_timetable Some (Some ''u'') ''u'' (Fin 2024) (Fin 1) (Fin 0) ?d' = Inr r
          \<and> (\<exists>cells. map entry_cell (b_entries ?R) = map Some cells
                 \<and> map view_cell (r_entries r) = sort_key cell_key cells)
          \<and> sorted (map (\<lambda>v. (v_dayNum v, v_period v)) (r_entries r))
          \<and> r_selected r = Some (Fin 2024, Fin 1, Fin 0)"
    by blast
  moreover have "b_entries ?R
       = [cell (DStr ''t'') (Fin 2) (Some ''CS102''), cell (DStr ''m'') (Fin 1) (Some ''CS101'')]"
    by (simp add: two_cells_request_def sync_request_def)
  ultimately show ?thesis using t own days f by simp
qed

text \<open>The cells that this read returns.\<close>

lemma two_cells_fetched:
  "map_sum id (map view_cell \<circ> r_entries)
     (get_timetable Some (Some ''u'') ''u'' (Fin 2024) (Fin 1) (Fin 0)
        (snd (sync 10 ''u'' two_cells_request stored_db)))
   = Inr [(1, 1, ''CS101'', [], []), (2, 2, ''CS102'', [], [])]"
  by code_simp

text \<open>
  C4 as stated fails for an entry that names a term of its own: the sync of the term
  (2024, 1, 0) with one entry of the year 2023 succeeds, the entry is stored under 2023, and
  the owner's read of (2024, 1, 0) returns no entry.
\<close>

theorem sync_other_year_counterexample:
  "b_year other_year_request = Fin 2024
   \<and> length (b_entries other_year_request) = 1
   \<and> fst (sync 10 ''u'' other_year_request stored_db) = Inr (sync_response other_year_request)
   \<and> map e_year (timetable_entries (snd (sync 10 ''u'' other_year_request stored_db))) = [2023]
   \<and> map_sum id r_entries
       (get_timetable Some (Some ''u'') ''u'' (Fin 2024) (Fin 1) (Fin 0)
          (snd (sync 10 ''u'' other_year_request stored_db))) = Inr []"
  by code_simp

section \<open>Properties of the term resolution\<close>

lemma first_published_None: "first_published rows = None \<longleftrightarrow> rows = []"
proof -
  have "length (sort_key (\<lambda>r. - p_published_at r) rows) = length rows" by simp
  then have "sort_key (\<lambda>r. - p_published_at r) rows = [] \<longleftrightarrow> rows = []"
    by (metis length_0_conv)
  then show ?thesis by (cases "sort_key (\<lambda>r. - p_published_at r) rows") (simp_all add: first_published_def)
qed

lemma first_published_Some:
  assumes "first_published rows = Some r"
  shows "r \<in> set rows \<and> (\<forall>r'\<in>set rows. p_published_at r' \<le> p_published_at r)"
proof -
  obtain rest where s: "sort_key (\<lambda>r. - p_published_at r) rows = r # rest"
    using assms by (auto simp: first_published_def split: list.splits)
  have "set (r # rest) = set rows" unfolding s [symmetric] by simp
  moreover have "sorted (map (\<lambda>r. - p_published_at r) (r # rest))"
    unfolding s [symmetric] by (rule sorted_sort_key)
  ultimately show ?thesis by auto
qed

lemma latest_None: "latest d owner = None \<longleftrightarrow> (\<forall>r\<in>set (timetable_published_terms d). p_user_id r \<noteq> owner)"
proof
  assume "latest d owner = None"
  then have "first_published (filter (\<lambda>r. p_user_id r = owner) (timetable_published_terms d)) = None"
    by (simp add: latest_def split: option.splits)
  then show "\<forall>r\<in>set (timetable_published_terms d). p_user_id r \<noteq> owner"
    by (simp add: first_published_None filter_empty_conv)
next
  assume a: "\<forall>r\<in>set (timetable_published_terms d). p_user_id r \<noteq> owner"
  then have "filter (\<lambda>r. p_user_id r = owner \<and> p_is_latest r = 1) (timetable_published_terms d) = []"
    and "filter (\<lambda>r. p_user_id r = owner) (timetable_published_terms d) = []"
    by (simp_all add: filter_empty_conv)
  then show "latest d owner = None"
    using first_published_None [of "[]"] by (simp add: latest_def)
qed

lemma latest_Some:
  assumes "latest d owner = Some row"
  shows "row \<in> set (timetable_published_terms d) \<and> p_user_id row = owner
       \<and> (if \<exists>r\<in>set (timetable_published_terms d). p_user_id r = owner \<and> p_is_latest r = 1
          then p_is_latest row = 1
               \<and> (\<forall>r\<in>set (timetable_published_terms d).
                     p_user_id r = owner \<and> p_is_latest r = 1 \<longrightarrow> p_published_at r \<le> p_published_at row)
          else (\<forall>r\<in>set (timetable_published_terms d).
                     p_user_id r = owner \<longrightarrow> p_published_at r \<le> p_published_at row))"
proof (cases "first_published (filter (\<lambda>r. p_user_id r = owner \<and> p_is_latest r = 1)
                (timetable_published_terms d))")
  case None
  then have no: "\<not> (\<exists>r\<in>set (timetable_published_terms d). p_user_id r = owner \<and> p_is_latest r = 1)"
    by (simp add: first_published_None filter_empty_conv)
  from None assms have "first_published (filter (\<lambda>r. p_user_id r = owner) (timetable_published_terms d)) = Some row"
    by (simp add: latest_def)
  from first_published_Some [OF this] no show ?thesis by auto
next
  case (Some r)
  then have "row = r" using assms by (simp add: latest_def)
  with first_published_Some [OF Some] show ?thesis by auto
qed

lemma get_timetable_unspecified:
  assumes "noTermSpecified qYear qSem qSub"
    and "get_timetable JSON_parse viewer owner qYear qSem qSub d = Inr resp"
  shows "case latest d owner of
           None \<Rightarrow> r_entries resp = [] \<and> r_available_terms resp = [] \<and> r_selected resp = None
         | Some row \<Rightarrow> r_selected resp = Some (Fin (p_year row), Fin (p_semester row), Fin (p_sub_term row))"
  using assms
  by (auto simp: get_timetable_def resolve_term_def Let_def split: sum.splits option.splits)

lemma get_timetable_never_published:
  assumes "noTermSpecified qYear qSem qSub" and "latest d owner = None"
    and "customColors_of JSON_parse (timetable_settings d owner) = Inr cc"
    and "visibility_gate d (isPublic_of (timetable_settings d owner))
           (allowFollowers_of (allow_followers_col d) (timetable_settings d owner)) viewer owner = Inr ()"
  shows "get_timetable JSON_parse viewer owner qYear qSem qSub d
         = Inr \<lparr>r_entries = [],
                r_settings = \<lparr>vs_is_public = (if isPublic_of (timetable_settings d owner) then 1 else 0),
                              vs_allow_copy = (if allowCopy_of (timetable_settings d owner) then 1 else 0),
                              vs_allow_followers = (if allowFollowers_of (allow_followers_col d) (timetable_settings d owner) then 1 else 0),
                              vs_custom_colors = cc\<rparr>,
                r_available_terms = [], r_selected = None\<rparr>"
  using assms by (simp add: get_timetable_def resolve_term_def Let_def)

lemma get_timetable_unspecified_explicit:
  assumes "noTermSpecified qYear qSem qSub" and "latest d owner = Some row"
  shows "get_timetable JSON_parse viewer owner qYear qSem qSub d
         = get_timetable JSON_parse viewer owner (Fin (p_year row)) (Fin (p_semester row))
             (Fin (p_sub_term row)) d"
proof -
  have "resolve_term d owner qYear qSem qSub
        = resolve_term d owner (Fin (p_year row)) (Fin (p_semester row)) (Fin (p_sub_term row))"
    using assms by (simp add: resolve_term_def noTermSpecified_def isNaN_def)
  then show ?thesis by (simp only: get_timetable_def)
qed

lemma list_all2_right_set:
  "list_all2 P xs ys \<Longrightarrow> \<forall>y\<in>set ys. \<exists>x\<in>set xs. P x y"
  by (induction rule: list_all2_induct) auto

text \<open>What an answered read of an explicit term of three finite numbers returns.\<close>

lemma get_timetable_entries:
  assumes "get_timetable JSON_parse viewer owner (Fin y) (Fin s) (Fin st) d = Inr resp"
  shows "map view_cell (r_entries resp)
         = map row_cell (sort_key (\<lambda>r. (e_day r, e_period r))
             (filter (\<lambda>r. e_user_id r = owner \<and> e_year r = y \<and> e_semester r = s \<and> e_sub_term r = st)
                (timetable_entries d)))
       \<and> list_all (\<lambda>v. v_sub_term v = st \<and> dayNumToKey (Fin (v_dayNum v)) = Inr (v_day v))
           (r_entries resp)
       \<and> r_selected resp = Some (Fin y, Fin s, Fin st)"
proof -
  let ?rows = "sort_key (\<lambda>r. (e_day r, e_period r))
                 (filter (entry_in_term owner (Fin y) (Fin s) (Fin st)) (timetable_entries d))"
  have res: "resolve_term d owner (Fin y) (Fin s) (Fin st) = Some (Fin y, Fin s, Fin st)"
    by (simp add: resolve_term_def noTermSpecified_def isNaN_def)
  from assms have m: "map_throw view_entry_of ?rows = Inr (r_entries resp)"
    and sel: "r_selected resp = Some (Fin y, Fin s, Fin st)"
    using res by (auto simp: get_timetable_def Let_def split: sum.splits)
  have rel: "list_all2 (\<lambda>x v. view_entry_of x = Inr v) ?rows (r_entries resp)"
    using map_throw_rel [OF m] .
  have vc: "map row_cell ?rows = map view_cell (r_entries resp)"
    using rel view_entry_of_cell by (intro list_all2_map_eq) (auto simp: list_all2_conv_all_nth)
  have f: "filter (entry_in_term owner (Fin y) (Fin s) (Fin st)) (timetable_entries d)
           = filter (\<lambda>r. e_user_id r = owner \<and> e_year r = y \<and> e_semester r = s \<and> e_sub_term r = st)
                (timetable_entries d)"
    by (rule filter_cong) (simp_all add: in_term_finite)
  have st: "\<forall>x\<in>set ?rows. e_sub_term x = st" by (simp add: in_term_finite)
  have "\<forall>v\<in>set (r_entries resp). \<exists>x\<in>set ?rows. view_entry_of x = Inr v"
    using list_all2_right_set [OF rel] .
  then have "\<forall>v\<in>set (r_entries resp).
               v_sub_term v = st \<and> dayNumToKey (Fin (v_dayNum v)) = Inr (v_day v)"
    using st view_entry_of_cell by metis
  then have "list_all (\<lambda>v. v_sub_term v = st \<and> dayNumToKey (Fin (v_dayNum v)) = Inr (v_day v))
               (r_entries resp)"
    by (simp add: list_all_iff)
  with vc sel show ?thesis unfolding f by simp
qed

text \<open>When a read is answered.\<close>

lemma get_timetable_answered:
  assumes "customColors_of JSON_parse (timetable_settings d owner) = Inr cc"
    and "visibility_gate d (isPublic_of (timetable_settings d owner))
           (allowFollowers_of (allow_followers_col d) (timetable_settings d owner)) viewer owner
         = Inr ()"
    and "list_all (\<lambda>r. e_user_id r = owner \<longrightarrow> 1 \<le> e_day r \<and> e_day r \<le> 5) (timetable_entries d)"
  shows "\<exists>resp. get_timetable JSON_parse viewer owner qYear qSem qSub d = Inr resp"
proof (cases "resolve_term d owner qYear qSem qSub")
  case None
  then show ?thesis using assms(1,2) by (simp add: get_timetable_def Let_def)
next
  case (Some t)
  obtain y s st where t: "t = (y, s, st)" by (cases t) auto
  have "\<forall>r\<in>set (sort_key (\<lambda>r. (e_day r, e_period r))
                   (filter (entry_in_term owner y s st) (timetable_entries d))).
          \<exists>v. view_entry_of r = Inr v"
  proof
    fix r assume "r \<in> set (sort_key (\<lambda>r. (e_day r, e_period r))
                   (filter (entry_in_term owner y s st) (timetable_entries d)))"
    then have "r \<in> set (timetable_entries d)" "entry_in_term owner y s st r" by auto
    then have "1 \<le> e_day r \<and> e_day r \<le> 5"
      using assms(3)
      by (auto simp: list_all_iff entry_in_term_def sql_true_def sql_and_def split: if_splits)
    then show "\<exists>v. view_entry_of r = Inr v" using view_entry_of_ok by blast
  qed
  from map_throw_total [OF this] obtain ys where "map_throw view_entry_of
                (sort_key (\<lambda>r. (e_day r, e_period r))
                   (filter (entry_in_term owner y s st) (timetable_entries d))) = Inr ys" by blast
  then show ?thesis using assms(1,2) Some t by (simp add: get_timetable_def Let_def)
qed

text \<open>
  C6. \<open>latest\<close> is \<open>None\<close> exactly when the owner has no published row. Otherwise it is a row
  of the owner: a flagged one (the most recently published of the flagged ones) when a flagged
  row exists, else the most recently published one (among rows that tie on \<open>published_at\<close>
  SQL leaves the choice open; \<open>latest\<close> is the first of them in the table). A read that leaves
  the term unspecified is the read of the term of that row: it has the outcome of the read
  that names that term, and when it is answered its entries are exactly the stored rows of the
  owner in that term, ordered by day and then by period, and that term is the selected one.
  When there is no such row it answers with no entries, no available terms and no selected
  term. It is answered whenever the gate lets the viewer pass, the owner's colours parse and
  the owner's stored days are in 1..5.
\<close>

theorem latest_term_served:
  "(latest d owner = None \<longleftrightarrow> (\<forall>r\<in>set (timetable_published_terms d). p_user_id r \<noteq> owner))
   \<and> (latest d owner = Some row \<longrightarrow>
        row \<in> set (timetable_published_terms d) \<and> p_user_id row = owner
        \<and> (if \<exists>r\<in>set (timetable_published_terms d). p_user_id r = owner \<and> p_is_latest r = 1
           then p_is_latest row = 1
                \<and> (\<forall>r\<in>set (timetable_published_terms d).
                      p_user_id r = owner \<and> p_is_latest r = 1 \<longrightarrow> p_published_at r \<le> p_published_at row)
           else (\<forall>r\<in>set (timetable_published_terms d).
                      p_user_id r = owner \<longrightarrow> p_published_at r \<le> p_published_at row)))
   \<and> (noTermSpecified qYear qSem qSub
        \<and> get_timetable JSON_parse viewer owner qYear qSem qSub d = Inr resp \<longrightarrow>
        (case latest d owner of
           None \<Rightarrow> r_entries resp = [] \<and> r_available_terms resp = [] \<and> r_selected resp = None
         | Some row' \<Rightarrow>
             r_selected resp = Some (Fin (p_year row'), Fin (p_semester row'), Fin (p_sub_term row'))))
   \<and> (noTermSpecified qYear qSem qSub \<and> latest d owner = None
        \<and> customColors_of JSON_parse (timetable_settings d owner) = Inr cc
        \<and> visibility_gate d (isPublic_of (timetable_settings d owner))
            (allowFollowers_of (allow_followers_col d) (timetable_settings d owner)) viewer owner
          = Inr () \<longrightarrow>
        get_timetable JSON_parse viewer owner qYear qSem qSub d
        = Inr \<lparr>r_entries = [],
               r_settings =
                 \<lparr>vs_is_public = (if isPublic_of (timetable_settings d owner) then 1 else 0),
                  vs_allow_copy = (if allowCopy_of (timetable_settings d owner) then 1 else 0),
                  vs_allow_followers =
                    (if allowFollowers_of (allow_followers_col d) (timetable_settings d owner)
                     then 1 else 0),
                  vs_custom_colors = cc\<rparr>,
               r_available_terms = [], r_selected = None\<rparr>)
   \<and> (noTermSpecified qYear qSem qSub \<and> latest d owner = Some row \<longrightarrow>
        get_timetable JSON_parse viewer owner qYear qSem qSub d
        = get_timetable JSON_parse viewer owner (Fin (p_year row)) (Fin (p_semester row))
            (Fin (p_sub_term row)) d)
   \<and> (noTermSpecified qYear qSem qSub \<and> latest d owner = Some row
        \<and> get_timetable JSON_parse viewer owner qYear qSem qSub d = Inr resp \<longrightarrow>
        map view_cell (r_entries resp)
        = map row_cell (sort_key (\<lambda>r. (e_day r, e_period r))
            (filter (\<lambda>r. e_user_id r = owner \<and> e_year r = p_year row
                          \<and> e_semester r = p_semester row \<and> e_sub_term r = p_sub_term row)
               (timetable_entries d)))
        \<and> list_all (\<lambda>v. v_sub_term v = p_sub_term row
                          \<and> dayNumToKey (Fin (v_dayNum v)) = Inr (v_day v)) (r_entries resp)
        \<and> r_selected resp = Some (Fin (p_year row), Fin (p_semester row), Fin (p_sub_term row)))
   \<and> (customColors_of JSON_parse (timetable_settings d owner) = Inr cc
        \<and> visibility_gate d (isPublic_of (timetable_settings d owner))
            (allowFollowers_of (allow_followers_col d) (timetable_settings d owner)) viewer owner
          = Inr ()
        \<and> list_all (\<lambda>r. e_user_id r = owner \<longrightarrow> 1 \<le> e_day r \<and> e_day r \<le> 5)
            (timetable_entries d) \<longrightarrow>
        (\<exists>resp'. get_timetable JSON_parse viewer owner qYear qSem qSub d = Inr resp'))"
proof -
  have served: "map view_cell (r_entries resp)
        = map row_cell (sort_key (\<lambda>r. (e_day r, e_period r))
            (filter (\<lambda>r. e_user_id r = owner \<and> e_year r = p_year row
                          \<and> e_semester r = p_semester row \<and> e_sub_term r = p_sub_term row)
               (timetable_entries d)))
        \<and> list_all (\<lambda>v. v_sub_term v = p_sub_term row
                          \<and> dayNumToKey (Fin (v_dayNum v)) = Inr (v_day v)) (r_entries resp)
        \<and> r_selected resp = Some (Fin (p_year row), Fin (p_semester row), Fin (p_sub_term row))"
    if "noTermSpecified qYear qSem qSub" "latest d owner = Some row"
      "get_timetable JSON_parse viewer owner qYear qSem qSub d = Inr resp"
  proof -
    have "get_timetable JSON_parse viewer owner (Fin (p_year row)) (Fin (p_semester row))
            (Fin (p_sub_term row)) d = Inr resp"
      using get_timetable_unspecified_explicit [OF that(1,2), of JSON_parse viewer] that(3) by simp
    then show ?thesis by (rule get_timetable_entries)
  qed
  show ?thesis
    using latest_None [of d owner] latest_Some [of d owner row]
      get_timetable_unspecified [of qYear qSem qSub JSON_parse viewer owner d resp]
      get_timetable_never_published [of qYear qSem qSub d owner JSON_parse cc viewer]
      get_timetable_unspecified_explicit [of qYear qSem qSub d owner row JSON_parse viewer]
      get_timetable_answered [of JSON_parse d owner cc viewer qYear qSem qSub]
      served
    by blast
qed

text \<open>
  The owner \<open>u\<close> reads without a term: with the two published terms the flagged term
  (2024, 1, 0) is served, with the cell stored for it, although (2023, 1, 0) was published
  later; with no published term the answer is the empty one.
\<close>

theorem latest_term_served_witness:
  "latest published_db ''u''
     = Some \<lparr>p_user_id = ''u'', p_year = 2024, p_semester = 1, p_sub_term = 0, p_is_latest = 1,
             p_published_at = 3\<rparr>
   \<and> noTermSpecified NaN NaN NaN
   \<and> get_timetable Some (Some ''u'') ''u'' NaN NaN NaN published_db
     = get_timetable Some (Some ''u'') ''u'' (Fin 2024) (Fin 1) (Fin 0) published_db
   \<and> r_selected (projr (get_timetable Some (Some ''u'') ''u'' NaN NaN NaN published_db))
     = Some (Fin 2024, Fin 1, Fin 0)
   \<and> map view_cell
       (r_entries (projr (get_timetable Some (Some ''u'') ''u'' NaN NaN NaN published_db)))
     = [(2, 3, ''MA200'', [], [])]
   \<and> latest stored_db ''u'' = None
   \<and> timetable_published_terms stored_db = []
   \<and> get_timetable Some (Some ''u'') ''u'' NaN NaN NaN stored_db
     = Inr \<lparr>r_entries = [],
            r_settings = \<lparr>vs_is_public = 0, vs_allow_copy = 0, vs_allow_followers = 0,
                          vs_custom_colors = None\<rparr>,
            r_available_terms = [], r_selected = None\<rparr>"
proof -
  let ?row = "\<lparr>p_user_id = ''u'', p_year = 2024, p_semester = 1, p_sub_term = 0, p_is_latest = 1,
               p_published_at = 3\<rparr>"
  let ?g = "get_timetable Some (Some ''u'') ''u'' NaN NaN NaN published_db"
  have l: "latest published_db ''u'' = Some ?row" by code_simp
  have n: "noTermSpecified NaN NaN NaN" by (simp add: noTermSpecified_def isNaN_def)
  have "\<not> isl ?g" by code_simp
  then have g: "?g = Inr (projr ?g)" by simp
  note inst = latest_term_served
    [of published_db "''u''" ?row NaN NaN NaN Some "Some ''u''" "projr ?g" None]
  have i5: "?g = get_timetable Some (Some ''u'') ''u'' (Fin (p_year ?row)) (Fin (p_semester ?row))
                   (Fin (p_sub_term ?row)) published_db"
    using inst l n by blast
  have i6: "map view_cell (r_entries (projr ?g))
        = map row_cell (sort_key (\<lambda>r. (e_day r, e_period r))
            (filter (\<lambda>r. e_user_id r = ''u'' \<and> e_year r = p_year ?row
                          \<and> e_semester r = p_semester ?row \<and> e_sub_term r = p_sub_term ?row)
               (timetable_entries published_db)))
      \<and> r_selected (projr ?g)
        = Some (Fin (p_year ?row), Fin (p_semester ?row), Fin (p_sub_term ?row))"
    using inst l n g by blast
  have x: "?g = get_timetable Some (Some ''u'') ''u'' (Fin 2024) (Fin 1) (Fin 0) published_db"
    using i5 by simp
  have s: "r_selected (projr ?g) = Some (Fin 2024, Fin 1, Fin 0)"
    using i6 by simp
  have rows: "map row_cell (sort_key (\<lambda>r. (e_day r, e_period r))
            (filter (\<lambda>r. e_user_id r = ''u'' \<and> e_year r = 2024 \<and> e_semester r = 1 \<and> e_sub_term r = 0)
               (timetable_entries published_db)))
        = [(2, 3, ''MA200'', [], [])]"
    by code_simp
  have c: "map view_cell (r_entries (projr ?g)) = [(2, 3, ''MA200'', [], [])]"
    using i6 rows by simp
  have l0: "latest stored_db ''u'' = None" by code_simp
  have st: "timetable_settings stored_db ''u'' = None" by (simp add: stored_db_def)
  have c0: "customColors_of Some (timetable_settings stored_db ''u'') = Inr None"
    by (simp add: st customColors_of_def)
  have g0: "visibility_gate stored_db (isPublic_of (timetable_settings stored_db ''u''))
            (allowFollowers_of (allow_followers_col stored_db) (timetable_settings stored_db ''u''))
            (Some ''u'') ''u'' = Inr ()"
    by (simp add: visibility_gate_def st isPublic_of_def)
  have e: "get_timetable Some (Some ''u'') ''u'' NaN NaN NaN stored_db
     = Inr \<lparr>r_entries = [],
            r_settings = \<lparr>vs_is_public = 0, vs_allow_copy = 0, vs_allow_followers = 0,
                          vs_custom_colors = None\<rparr>,
            r_available_terms = [], r_selected = None\<rparr>"
    using latest_term_served [of stored_db "''u''" ?row NaN NaN NaN Some "Some ''u''" "projr ?g" None]
      l0 n c0 g0
    by (simp add: st isPublic_of_def allowCopy_of_def allowFollowers_of_def)
  have p0: "timetable_published_terms stored_db = []" by (simp add: stored_db_def)
  from l n x s c l0 p0 e show ?thesis by blast
qed

end
